theory Spec2Isabelle
  imports Main
begin

section \<open>Runtime values of a record\<close>

text \<open>
  The details modal of \<^verbatim>\<open>src/components/common/DynamicDetailsModal.tsx\<close> receives a record
  (\<^verbatim>\<open>item\<close>) whose fields hold arbitrary data. The shapes of data the component inspects
  are \<^verbatim>\<open>null\<close>, \<^verbatim>\<open>undefined\<close>, strings, numbers, booleans, arrays and mappings. A mapping is
  the list of its own enumerable properties, in the order \<^verbatim>\<open>Object.entries\<close> lists them,
  together with its prototype: \<^verbatim>\<open>Object.prototype\<close> for a plain object, or none for an
  object made by \<^verbatim>\<open>Object.create(null)\<close>. The values of own properties are data, never
  functions. Numbers are kept abstract (type \<open>'n\<close>); what the platform does with them is
  a field of the \<open>host\<close> record below. Strings are lists of code units below 256.
\<close>

datatype proto = ObjectPrototype | NoPrototype

datatype 'n jsval =
    JNull
  | JUndefined
  | JStr string
  | JNum 'n
  | JBool bool
  | JArr "'n jsval list"
  | JObj proto "(string \<times> 'n jsval) list"

text \<open>The record is an object: its prototype and its own properties.\<close>

type_synonym 'n item = "proto \<times> (string \<times> 'n jsval) list"

text \<open>
  What the formatter can be handed. Reading a key of the record yields an own property,
  which is data, or, through the prototype chain, a member of \<^verbatim>\<open>Object.prototype\<close>: one of
  its built-in functions (named by its key) or, for the key \<^verbatim>\<open>__proto__\<close>, the prototype
  object itself.
\<close>

datatype 'n input =
    Data "'n jsval"
  | BuiltinFunction string
  | PrototypeObject

text \<open>
  Exceptions: the \<^verbatim>\<open>TypeError\<close> that the component's own expressions can raise, and
  whatever a function supplied by the caller throws.
\<close>

datatype err = TypeError | Thrown string

text \<open>
  A callback acts on the state of the surrounding application, of type \<open>'w\<close>: it returns
  and leaves a state, or raises and leaves the state it had reached.
\<close>

datatype 'w outcome = Returned 'w | Raised err 'w

text \<open>
  Platform functions whose results depend on the engine and its locale: \<^verbatim>\<open>String(n)\<close>,
  \<^verbatim>\<open>n.toLocaleString()\<close> and the truthiness of a number; the time value of
  \<^verbatim>\<open>new Date(s)\<close>, which is absent (\<^verbatim>\<open>NaN\<close>) for a string that does not parse, and the
  locale text of a time value; the source text \<^verbatim>\<open>String(f)\<close> of a built-in function.
\<close>

record 'n host =
  num_to_string :: "'n \<Rightarrow> string"
  num_to_locale :: "'n \<Rightarrow> string"
  num_truthy :: "'n \<Rightarrow> bool"
  date_parse :: "string \<Rightarrow> 'n option"
  date_to_locale :: "'n \<Rightarrow> string"
  fun_to_string :: "string \<Rightarrow> string"

subsection \<open>Exceptions as values\<close>

fun bind_err :: "err + 'a \<Rightarrow> ('a \<Rightarrow> err + 'b) \<Rightarrow> err + 'b" where
  "bind_err (Inl e) f = Inl e"
| "bind_err (Inr x) f = f x"

text \<open>Evaluating a list of computations left to right; the first exception aborts.\<close>

fun sequence_err :: "(err + 'a) list \<Rightarrow> err + 'a list" where
  "sequence_err [] = Inr []"
| "sequence_err (Inl e # rs) = Inl e"
| "sequence_err (Inr x # rs) = bind_err (sequence_err rs) (\<lambda>xs. Inr (x # xs))"

subsection \<open>String conversion and string helpers\<close>

text \<open>\<^verbatim>\<open>Array.prototype.join\<close> with the default separator.\<close>

fun join_comma :: "string list \<Rightarrow> string" where
  "join_comma [] = []"
| "join_comma [s] = s"
| "join_comma (s # t # ss) = s @ '','' @ join_comma (t # ss)"

text \<open>
  \<^verbatim>\<open>String(value)\<close> on data. An array is joined with commas, its \<^verbatim>\<open>null\<close> and \<^verbatim>\<open>undefined\<close>
  elements contributing the empty string. A mapping is converted by the first callable
  of its \<^verbatim>\<open>toString\<close> and \<^verbatim>\<open>valueOf\<close> that returns a primitive. A plain object inherits
  \<^verbatim>\<open>Object.prototype.toString\<close>, which gives \<^verbatim>\<open>[object Object]\<close>, unless an own property
  named \<^verbatim>\<open>toString\<close> hides it: that property is data, hence not callable, \<^verbatim>\<open>valueOf\<close>
  does not yield a primitive, and the conversion raises a \<^verbatim>\<open>TypeError\<close>. A mapping without
  prototype has no callable \<^verbatim>\<open>toString\<close> or \<^verbatim>\<open>valueOf\<close> at all, and the conversion raises
  as well.
\<close>

fun js_String :: "'n host \<Rightarrow> 'n jsval \<Rightarrow> err + string" where
  "js_String h JNull = Inr ''null''"
| "js_String h JUndefined = Inr ''undefined''"
| "js_String h (JStr s) = Inr s"
| "js_String h (JNum n) = Inr (num_to_string h n)"
| "js_String h (JBool b) = Inr (if b then ''true'' else ''false'')"
| "js_String h (JArr xs) =
     bind_err
       (sequence_err
          (map (\<lambda>x. case x of JNull \<Rightarrow> Inr [] | JUndefined \<Rightarrow> Inr [] | _ \<Rightarrow> js_String h x) xs))
       (\<lambda>ss. Inr (join_comma ss))"
| "js_String h (JObj p kvs) =
     (if p = NoPrototype \<or> ''toString'' \<in> set (map fst kvs) then Inl TypeError
      else Inr ''[object Object]'')"

text \<open>
  \<^verbatim>\<open>String(value)\<close> on whatever the formatter is handed: a built-in function converts to its
  source text, and \<^verbatim>\<open>Object.prototype\<close> itself, whose own \<^verbatim>\<open>toString\<close> is callable, to
  \<^verbatim>\<open>[object Object]\<close>.
\<close>

fun input_String :: "'n host \<Rightarrow> 'n input \<Rightarrow> err + string" where
  "input_String h (Data v) = js_String h v"
| "input_String h (BuiltinFunction k) = Inr (fun_to_string h k)"
| "input_String h PrototypeObject = Inr ''[object Object]''"

text \<open>Truthiness of data, as \<^verbatim>\<open>filter(([, v]) => v)\<close> tests it.\<close>

fun truthy :: "'n host \<Rightarrow> 'n jsval \<Rightarrow> bool" where
  "truthy h JNull = False"
| "truthy h JUndefined = False"
| "truthy h (JStr s) = (s \<noteq> [])"
| "truthy h (JNum n) = num_truthy h n"
| "truthy h (JBool b) = b"
| "truthy h (JArr xs) = True"
| "truthy h (JObj p kvs) = True"

text \<open>\<^verbatim>\<open>s.startsWith(p)\<close> and \<^verbatim>\<open>s.includes(p)\<close>.\<close>

fun startsWith :: "string \<Rightarrow> string \<Rightarrow> bool" where
  "startsWith s [] = True"
| "startsWith [] (p # ps) = False"
| "startsWith (c # cs) (p # ps) = (c = p \<and> startsWith cs ps)"

fun includes_str :: "string \<Rightarrow> string \<Rightarrow> bool" where
  "includes_str [] p = (p = [])"
| "includes_str (c # cs) p = (startsWith (c # cs) p \<or> includes_str cs p)"

text \<open>
  \<^verbatim>\<open>s.trim()\<close> strips white space and line terminators from both ends; among code units
  below 256 these are tab, line feed, vertical tab, form feed, carriage return, space and
  the no-break space.
\<close>

definition is_ws :: "char \<Rightarrow> bool" where
  "is_ws c = (c \<in> set [CHR 0x09, CHR 0x0A, CHR 0x0B, CHR 0x0C, CHR 0x0D, CHR 0x20, CHR 0xA0])"

definition js_trim :: "string \<Rightarrow> string" where
  "js_trim s = rev (dropWhile is_ws (rev (dropWhile is_ws s)))"

text \<open>\<^verbatim>\<open>s.replace(/\n/g, "<br>")\<close>: every line feed becomes the four characters of the tag.\<close>

definition replace_newlines :: "string \<Rightarrow> string" where
  "replace_newlines s = concat (map (\<lambda>c. if c = CHR 0x0A then ''<br>'' else [c]) s)"

text \<open>Decimal text of an index or a length, as a template literal prints it.\<close>

fun nat_to_string :: "nat \<Rightarrow> string" where
  "nat_to_string n =
     (if n < 10 then [char_of (48 + n)]
      else nat_to_string (n div 10) @ [char_of (48 + n mod 10)])"

declare nat_to_string.simps [simp del]

text \<open>
  \<^verbatim>\<open>new Date(s).toLocaleDateString()\<close>: the text \<^verbatim>\<open>Invalid Date\<close> when the string does not
  parse; the call never raises.
\<close>

definition toLocaleDateString :: "'n host \<Rightarrow> string \<Rightarrow> string" where
  "toLocaleDateString h s =
     (case date_parse h s of None \<Rightarrow> ''Invalid Date'' | Some t \<Rightarrow> date_to_locale h t)"

text \<open>
  \<^verbatim>\<open>item[key]\<close>. An own property wins. Otherwise a record with \<^verbatim>\<open>Object.prototype\<close>
  inherits its members: the accessor \<^verbatim>\<open>__proto__\<close>, which returns the prototype object,
  and its built-in functions. Any other key reads as \<^verbatim>\<open>undefined\<close>.
\<close>

definition object_prototype_functions :: "string list" where
  "object_prototype_functions =
     [''constructor'', ''__defineGetter__'', ''__defineSetter__'', ''hasOwnProperty'',
      ''__lookupGetter__'', ''__lookupSetter__'', ''isPrototypeOf'', ''propertyIsEnumerable'',
      ''toString'', ''valueOf'', ''toLocaleString'']"

definition item_get :: "'n item \<Rightarrow> string \<Rightarrow> 'n input" where
  "item_get item k =
     (case map_of (snd item) k of
        Some v \<Rightarrow> Data v
      | None \<Rightarrow>
          if fst item = ObjectPrototype then
            (if k = ''__proto__'' then PrototypeObject
             else if k \<in> set object_prototype_functions then BuiltinFunction k
             else Data JUndefined)
          else Data JUndefined)"

section \<open>Presentation nodes\<close>

text \<open>
  What the component returns is a tree of elements: a tag or component name, its
  properties and its children. A child can also be a string, a number, a boolean,
  \<^verbatim>\<open>null\<close> or \<^verbatim>\<open>undefined\<close> (the last three render nothing). An event handler is a
  callback on the state of the application.
\<close>

datatype 'w pval =
    PStr string
  | PNat nat
  | PBool bool
  | PStyle "(string \<times> string) list"
  | PHtml string
  | PHandler "'w \<Rightarrow> 'w outcome"
  | PUndefined

datatype ('n, 'w) node =
    El string "(string \<times> 'w pval) list" "('n, 'w) node list"
  | Txt string
  | NumN 'n
  | NatN nat
  | BoolN bool
  | NullN
  | UndefinedN

text \<open>Truthiness of a node, as \<^verbatim>\<open>||\<close> and \<^verbatim>\<open>&&\<close> test it.\<close>

fun node_truthy :: "'n host \<Rightarrow> ('n, 'w) node \<Rightarrow> bool" where
  "node_truthy h (El t ps cs) = True"
| "node_truthy h (Txt s) = (s \<noteq> [])"
| "node_truthy h (NumN n) = num_truthy h n"
| "node_truthy h (NatN n) = (n \<noteq> 0)"
| "node_truthy h (BoolN b) = b"
| "node_truthy h NullN = False"
| "node_truthy h UndefinedN = False"

text \<open>The property \<^verbatim>\<open>className\<close>.\<close>

abbreviation cls :: "string \<Rightarrow> string \<times> 'w pval" where
  "cls s \<equiv> (''className'', PStr s)"

section \<open>Column and action configuration\<close>

text \<open>
  Modelled from the spec: the declarations of \<^verbatim>\<open>ColumnConfig\<close>, \<^verbatim>\<open>ActionConfig\<close> and
  \<^verbatim>\<open>GenericDataItem\<close> live in \<^verbatim>\<open>@/types/dynamicCardTypes\<close>, which is not part of the
  sources at hand. The fields are the ones the component reads: a column has a key, a
  label, an optional type tag, optional choices for \<^verbatim>\<open>select\<close> and an optional custom
  render function, which returns a node or raises; a choice has a value, a label, an
  optional colour and an optional icon (\<^verbatim>\<open>undefined\<close> when absent); an action has a key, a
  label, an optional variant, an icon, a callback on the state of the application, which
  returns or raises, and an optional visibility condition, a predicate on the record.
\<close>

record ('n, 'w) select_option =
  opt_value :: string
  opt_label :: string
  opt_color :: "string option"
  opt_icon :: "('n, 'w) node"

record ('n, 'w) column =
  col_key :: string
  col_label :: string
  col_type :: "string option"
  col_options :: "('n, 'w) select_option list option"
  col_render :: "('n input \<Rightarrow> 'n item \<Rightarrow> err + ('n, 'w) node) option"

record ('n, 'w) action =
  act_key :: string
  act_label :: string
  act_variant :: "string option"
  act_icon :: "('n, 'w) node"
  act_onClick :: "'n item \<Rightarrow> 'w \<Rightarrow> 'w outcome"
  act_condition :: "('n item \<Rightarrow> bool) option"

section \<open>The value formatter\<close>

text \<open>The placeholders of \<^verbatim>\<open>formatValue\<close> (lines 49, 150, 168 and 188 to 192).\<close>

definition sentinel :: "string \<Rightarrow> ('n, 'w) node" where
  "sentinel s = El ''span'' [cls ''text-muted-foreground italic''] [Txt s]"

definition not_provided :: "('n, 'w) node" where
  "not_provided = sentinel ''Not provided''"

definition no_image :: "('n, 'w) node" where
  "no_image = sentinel ''No image''"

text \<open>Case \<^verbatim>\<open>"date"\<close>, lines 59 to 65, on the string \<^verbatim>\<open>String(value)\<close>.\<close>

definition format_date :: "'n host \<Rightarrow> string \<Rightarrow> ('n, 'w) node" where
  "format_date h s =
     El ''div'' [cls ''flex items-center gap-2'']
       [El ''Calendar'' [cls ''h-4 w-4 text-muted-foreground''] [],
        El ''span'' [] [Txt (toLocaleDateString h s)]]"

text \<open>Case \<^verbatim>\<open>"url"\<close>, lines 67 to 78.\<close>

definition format_url :: "string \<Rightarrow> ('n, 'w) node" where
  "format_url s =
     El ''a''
       [(''href'', PStr s), (''target'', PStr ''_blank''), (''rel'', PStr ''noopener noreferrer''),
        cls ''inline-flex items-center gap-1 text-primary hover:underline'']
       [Txt s, El ''ExternalLink'' [cls ''h-3 w-3''] []]"

text \<open>Case \<^verbatim>\<open>"select"\<close>, lines 80 to 104: the badge of a matching choice and the generic one.\<close>

definition option_badge :: "'n host \<Rightarrow> ('n, 'w) select_option \<Rightarrow> ('n, 'w) node" where
  "option_badge h opt =
     El ''Badge''
       [(''variant'', PStr ''secondary''),
        (''style'',
           (case opt_color opt of
              None \<Rightarrow> PUndefined
            | Some c \<Rightarrow>
                if c \<noteq> [] then PStyle [(''backgroundColor'', c @ ''20''), (''color'', c)]
                else PUndefined))]
       [if node_truthy h (opt_icon opt) then El ''span'' [cls ''mr-1''] [opt_icon opt]
        else opt_icon opt,
        Txt (opt_label opt)]"

definition outline_badge :: "string \<Rightarrow> ('n, 'w) node" where
  "outline_badge s = El ''Badge'' [(''variant'', PStr ''outline'')] [Txt s]"

definition format_select ::
  "'n host \<Rightarrow> ('n, 'w) select_option list option \<Rightarrow> string \<Rightarrow> ('n, 'w) node" where
  "format_select h opts s =
     (case opts of
        None \<Rightarrow> outline_badge s
      | Some os \<Rightarrow>
          (case find (\<lambda>opt. opt_value opt = s) os of
             Some opt \<Rightarrow> option_badge h opt
           | None \<Rightarrow> outline_badge s))"

text \<open>Case \<^verbatim>\<open>"image"\<close>, lines 106 to 150.\<close>

definition unoptimized :: "string \<Rightarrow> string \<times> 'w pval" where
  "unoptimized src = (''unoptimized'', PBool (startsWith src ''data:'' \<or> startsWith src ''blob:''))"

definition single_image :: "string \<Rightarrow> ('n, 'w) node" where
  "single_image src =
     El ''div'' [cls ''space-y-2'']
       [El ''div'' [cls ''relative w-full max-w-md mx-auto'']
          [El ''Image''
             [(''src'', PStr src), (''alt'', PStr ''Detail image''), (''width'', PNat 400),
              (''height'', PNat 300), cls ''rounded-lg border object-cover w-full'',
              unoptimized src]
             []]]"

definition thumbnail :: "nat \<Rightarrow> string \<Rightarrow> ('n, 'w) node" where
  "thumbnail index src =
     El ''div'' [(''key'', PNat index), cls ''relative aspect-square'']
       [El ''Image''
          [(''src'', PStr src), (''alt'', PStr (''Image '' @ nat_to_string (index + 1))),
           (''width'', PNat 150), (''height'', PNat 150),
           cls ''rounded-lg border object-cover w-full h-full'', unoptimized src]
          []]"

definition image_caption :: "nat \<Rightarrow> ('n, 'w) node" where
  "image_caption n =
     El ''p'' [cls ''text-sm text-muted-foreground text-center'']
       [NatN n, Txt '' image'', Txt (if n > 1 then ''s'' else [])]"

definition image_grid :: "('n, 'w) node list \<Rightarrow> nat \<Rightarrow> ('n, 'w) node" where
  "image_grid thumbs n =
     El ''div'' [cls ''space-y-3'']
       [El ''div'' [cls ''grid grid-cols-2 sm:grid-cols-3 gap-3''] thumbs, image_caption n]"

definition format_image :: "'n host \<Rightarrow> 'n input \<Rightarrow> err + ('n, 'w) node" where
  "format_image h v =
     (case v of
        Data (JStr s) \<Rightarrow> if js_trim s \<noteq> [] then Inr (single_image s) else Inr no_image
      | Data (JArr xs) \<Rightarrow>
          if length xs > 0 then
            bind_err
              (sequence_err
                 (map (\<lambda>(index, img). bind_err (js_String h img) (\<lambda>src. Inr (thumbnail index src)))
                    (enumerate 0 xs)))
              (\<lambda>thumbs. Inr (image_grid thumbs (length xs)))
          else Inr no_image
      | _ \<Rightarrow> Inr no_image)"

text \<open>Case \<^verbatim>\<open>"textarea"\<close>, lines 152 to 162: the markup is handed over as raw HTML.\<close>

definition format_textarea :: "string \<Rightarrow> ('n, 'w) node" where
  "format_textarea s =
     El ''div'' [cls ''prose prose-sm max-w-none'']
       [El ''div''
          [cls ''whitespace-pre-wrap text-sm leading-relaxed'',
           (''dangerouslySetInnerHTML'', PHtml (replace_newlines s))]
          []]"

text \<open>The default case, lines 164 to 237, dispatches on the shape of the value.\<close>

definition tag_badge :: "nat \<Rightarrow> string \<Rightarrow> ('n, 'w) node" where
  "tag_badge index s =
     El ''Badge'' [(''key'', PNat index), (''variant'', PStr ''outline''), cls ''text-xs'']
       [El ''Tag'' [cls ''h-3 w-3 mr-1''] [], Txt s]"

definition entry_value :: "'n host \<Rightarrow> 'n jsval \<Rightarrow> err + ('n, 'w) node" where
  "entry_value h val =
     (case val of
        JStr s \<Rightarrow>
          if startsWith s ''http'' then
            Inr (El ''a''
                   [(''href'', PStr s), (''target'', PStr ''_blank''),
                    (''rel'', PStr ''noopener noreferrer''),
                    cls ''text-primary hover:underline text-sm flex items-center gap-1'']
                   [Txt s, El ''ExternalLink'' [cls ''h-3 w-3''] []])
          else Inr (El ''span'' [cls ''text-sm''] [Txt s])
      | _ \<Rightarrow> bind_err (js_String h val) (\<lambda>s. Inr (El ''span'' [cls ''text-sm''] [Txt s])))"

definition entry_row :: "'n host \<Rightarrow> string \<times> 'n jsval \<Rightarrow> err + ('n, 'w) node" where
  "entry_row h kv =
     bind_err (entry_value h (snd kv))
       (\<lambda>n. Inr (El ''div''
                   [(''key'', PStr (fst kv)),
                    cls ''flex items-center justify-between p-2 rounded-md bg-muted/50'']
                   [El ''span'' [cls ''font-medium capitalize text-sm''] [Txt (fst kv), Txt '':''],
                    n]))"

text \<open>
  The rows of a mapping, lines 184 to 219, from its own enumerable properties.
  \<^verbatim>\<open>Object.prototype\<close> has none.
\<close>

definition format_entries ::
  "'n host \<Rightarrow> (string \<times> 'n jsval) list \<Rightarrow> err + ('n, 'w) node" where
  "format_entries h kvs =
     (let entries = filter (\<lambda>kv. truthy h (snd kv)) kvs in
      if length entries = 0 then Inr (sentinel ''None provided'')
      else
        bind_err (sequence_err (map (entry_row h) entries))
          (\<lambda>rows. Inr (El ''div'' [cls ''space-y-2''] rows)))"

definition format_default :: "'n host \<Rightarrow> 'n input \<Rightarrow> err + ('n, 'w) node" where
  "format_default h v =
     (case v of
        Data (JArr xs) \<Rightarrow>
          if length xs = 0 then Inr (sentinel ''None'')
          else
            bind_err
              (sequence_err
                 (map (\<lambda>(index, x). bind_err (js_String h x) (\<lambda>s. Inr (tag_badge index s)))
                    (enumerate 0 xs)))
              (\<lambda>badges. Inr (El ''div'' [cls ''flex flex-wrap gap-1''] badges))
      | Data (JObj p kvs) \<Rightarrow> format_entries h kvs
      | PrototypeObject \<Rightarrow> format_entries h []
      | Data (JBool b) \<Rightarrow>
          Inr (El ''Badge'' [(''variant'', PStr (if b then ''default'' else ''secondary''))]
                 [Txt (if b then ''Yes'' else ''No'')])
      | Data (JNum n) \<Rightarrow> Inr (El ''span'' [cls ''font-mono''] [Txt (num_to_locale h n)])
      | _ \<Rightarrow> bind_err (input_String h v) (\<lambda>s. Inr (El ''span'' [] [Txt s])))"

text \<open>The \<^verbatim>\<open>switch\<close> on \<^verbatim>\<open>column.type\<close>, lines 58 to 238.\<close>

definition format_by_type :: "'n host \<Rightarrow> 'n input \<Rightarrow> ('n, 'w) column \<Rightarrow> err + ('n, 'w) node" where
  "format_by_type h v col =
     (if col_type col = Some ''date'' then
        bind_err (input_String h v) (\<lambda>s. Inr (format_date h s))
      else if col_type col = Some ''url'' then
        bind_err (input_String h v) (\<lambda>s. Inr (format_url s))
      else if col_type col = Some ''select'' then
        bind_err (input_String h v) (\<lambda>s. Inr (format_select h (col_options col) s))
      else if col_type col = Some ''image'' then format_image h v
      else if col_type col = Some ''textarea'' then
        bind_err (input_String h v) (\<lambda>s. Inr (format_textarea s))
      else format_default h v)"

text \<open>
  \<^verbatim>\<open>formatValue\<close>, lines 44 to 239. The column argument can be \<^verbatim>\<open>undefined\<close>: the title
  passes \<^verbatim>\<open>columns[0]\<close> of a list that may be empty, and reading \<^verbatim>\<open>column.render\<close> then raises.
  Beside the result, the function is given a ghost output: the arguments of every call it
  makes to the column's custom render function.
\<close>

definition formatValue_traced ::
  "'n host \<Rightarrow> 'n item \<Rightarrow> 'n input \<Rightarrow> ('n, 'w) column option
     \<Rightarrow> ('n input \<times> 'n item) list \<times> (err + ('n, 'w) node)" where
  "formatValue_traced h item v column =
     (if v = Data JNull \<or> v = Data JUndefined then ([], Inr not_provided)
      else
        (case column of
           None \<Rightarrow> ([], Inl TypeError)
         | Some col \<Rightarrow>
             (case col_render col of
                Some r \<Rightarrow> ([(v, item)], r v item)
              | None \<Rightarrow> ([], format_by_type h v col))))"

definition formatValue ::
  "'n host \<Rightarrow> 'n item \<Rightarrow> 'n input \<Rightarrow> ('n, 'w) column option \<Rightarrow> err + ('n, 'w) node" where
  "formatValue h item v column = snd (formatValue_traced h item v column)"

definition render_calls ::
  "'n host \<Rightarrow> 'n item \<Rightarrow> 'n input \<Rightarrow> ('n, 'w) column option \<Rightarrow> ('n input \<times> 'n item) list" where
  "render_calls h item v column = fst (formatValue_traced h item v column)"

section \<open>Grouping the columns\<close>

text \<open>
  Lines 242 to 266. \<^verbatim>\<open>Array.prototype.includes\<close> on a list of column objects compares
  references; every filter below reads only the fields of the column at hand and nothing is
  mutated while rendering, so a column is found in a bucket exactly when it satisfies the
  bucket's predicate, which membership by value gives as well.
\<close>

definition basic_keys :: "string list" where
  "basic_keys = [''title'', ''subtitle'', ''name'', ''email'', ''phone'']"

definition meta_keys :: "string list" where
  "meta_keys = [''createdAt'', ''updatedAt'', ''author'', ''views'', ''priority'', ''status'']"

definition basicFields :: "('n, 'w) column list \<Rightarrow> ('n, 'w) column list" where
  "basicFields columns = filter (\<lambda>col. col_key col \<in> set basic_keys) columns"

definition mediaFields :: "('n, 'w) column list \<Rightarrow> ('n, 'w) column list" where
  "mediaFields columns =
     filter (\<lambda>col. col_type col = Some ''image'' \<or> includes_str (col_key col) ''image'') columns"

definition metaFields :: "('n, 'w) column list \<Rightarrow> ('n, 'w) column list" where
  "metaFields columns = filter (\<lambda>col. col_key col \<in> set meta_keys) columns"

definition otherFields :: "('n, 'w) column list \<Rightarrow> ('n, 'w) column list" where
  "otherFields columns =
     filter
       (\<lambda>col. col \<notin> set (basicFields columns) \<and> col \<notin> set (mediaFields columns) \<and>
               col \<notin> set (metaFields columns))
       columns"

section \<open>The dialog\<close>

text \<open>\<^verbatim>\<open>renderFieldSection\<close>, lines 268 to 290.\<close>

definition field_row :: "'n host \<Rightarrow> 'n item \<Rightarrow> ('n, 'w) column \<Rightarrow> err + ('n, 'w) node" where
  "field_row h item column =
     bind_err (formatValue h item (item_get item (col_key column)) (Some column))
       (\<lambda>n. Inr (El ''div'' [(''key'', PStr (col_key column)), cls ''space-y-2'']
                   [El ''Label'' [cls ''text-sm font-medium text-muted-foreground'']
                      [Txt (col_label column)],
                    El ''div'' [cls ''min-h-6''] [n]]))"

definition renderFieldSection ::
  "'n host \<Rightarrow> 'n item \<Rightarrow> string \<Rightarrow> ('n, 'w) column list \<Rightarrow> err + ('n, 'w) node" where
  "renderFieldSection h item sectionTitle fieldList =
     (if length fieldList = 0 then Inr NullN
      else
        bind_err (sequence_err (map (field_row h item) fieldList))
          (\<lambda>rows. Inr (El ''div'' [cls ''space-y-4'']
                         [El ''h3'' [cls ''text-lg font-semibold text-foreground''] [Txt sectionTitle],
                          El ''div'' [cls ''grid gap-4''] rows])))"

text \<open>
  The content of the title, lines 307 to 309:
  \<^verbatim>\<open>title || formatValue(item[columns[0]?.key], columns[0]) || "Details"\<close>. With no column,
  \<^verbatim>\<open>columns[0]?.key\<close> is \<^verbatim>\<open>undefined\<close> and the record is read at the key \<^verbatim>\<open>"undefined"\<close>.
\<close>

definition title_content ::
  "'n host \<Rightarrow> 'n item \<Rightarrow> ('n, 'w) column list \<Rightarrow> string option \<Rightarrow> err + ('n, 'w) node" where
  "title_content h item columns title =
     (let formatted =
            bind_err
              (formatValue h item
                 (item_get item (case columns of [] \<Rightarrow> ''undefined'' | c # cs \<Rightarrow> col_key c))
                 (case columns of [] \<Rightarrow> None | c # cs \<Rightarrow> Some c))
              (\<lambda>n. Inr (if node_truthy h n then n else Txt ''Details''))
      in case title of
           None \<Rightarrow> formatted
         | Some t \<Rightarrow> if t \<noteq> [] then Inr (Txt t) else formatted)"

text \<open>
  The body, lines 319 to 341: seven child expressions, evaluated in order. A condition
  that fails leaves \<^verbatim>\<open>false\<close> in the place of the separator.
\<close>

definition separator :: "('n, 'w) node" where
  "separator = El ''Separator'' [] []"

definition body_slots ::
  "'n host \<Rightarrow> 'n item \<Rightarrow> ('n, 'w) column list \<Rightarrow> (err + ('n, 'w) node) list" where
  "body_slots h item columns =
     [renderFieldSection h item ''Basic Information'' (basicFields columns),
      Inr (if length (basicFields columns) > 0 \<and>
              (length (mediaFields columns) > 0 \<or> length (otherFields columns) > 0 \<or>
               length (metaFields columns) > 0)
           then separator else BoolN False),
      renderFieldSection h item ''Media'' (mediaFields columns),
      Inr (if length (mediaFields columns) > 0 \<and>
              (length (otherFields columns) > 0 \<or> length (metaFields columns) > 0)
           then separator else BoolN False),
      renderFieldSection h item ''Additional Information'' (otherFields columns),
      Inr (if length (otherFields columns) > 0 \<and> length (metaFields columns) > 0
           then separator else BoolN False),
      renderFieldSection h item ''Meta Information'' (metaFields columns)]"

definition body :: "'n host \<Rightarrow> 'n item \<Rightarrow> ('n, 'w) column list \<Rightarrow> err + ('n, 'w) node" where
  "body h item columns =
     bind_err (sequence_err (body_slots h item columns))
       (\<lambda>children. Inr (El ''div'' [cls ''space-y-6 py-4''] children))"

text \<open>
  The action bar, lines 344 to 364. The click handler of a button, lines 354 to 357, is
  \<^verbatim>\<open>action.onClick(item); onClose();\<close> with nothing around it: when the callback raises, the
  exception leaves the handler and \<^verbatim>\<open>onClose\<close> is not reached.
\<close>

definition click_handler ::
  "'n item \<Rightarrow> ('w \<Rightarrow> 'w outcome) \<Rightarrow> ('n, 'w) action \<Rightarrow> 'w \<Rightarrow> 'w outcome" where
  "click_handler item onClose a w =
     (case act_onClick a item w of
        Raised e w' \<Rightarrow> Raised e w'
      | Returned w' \<Rightarrow> onClose w')"

definition action_button ::
  "'n item \<Rightarrow> ('w \<Rightarrow> 'w outcome) \<Rightarrow> ('n, 'w) action \<Rightarrow> ('n, 'w) node" where
  "action_button item onClose a =
     El ''Button''
       [(''key'', PStr (act_key a)),
        (''variant'',
           PStr (case act_variant a of
                   None \<Rightarrow> ''outline''
                 | Some v \<Rightarrow> if v \<noteq> [] then v else ''outline'')),
        (''size'', PStr ''sm''),
        cls ''flex items-center gap-2 border border-primary/50 rounded-md'',
        (''onClick'', PHandler (click_handler item onClose a))]
       [act_icon a, Txt (act_label a)]"

definition action_shown :: "'n item \<Rightarrow> ('n, 'w) action \<Rightarrow> bool" where
  "action_shown item a = (case act_condition a of None \<Rightarrow> True | Some c \<Rightarrow> c item)"

definition actions_bar ::
  "'n item \<Rightarrow> ('w \<Rightarrow> 'w outcome) \<Rightarrow> ('n, 'w) action list \<Rightarrow> ('n, 'w) node" where
  "actions_bar item onClose actions =
     (if length actions > 0 then
        El ''div'' [cls ''flex flex-wrap gap-2 pt-4 border-t justify-end'']
          (map (action_button item onClose) (filter (action_shown item) actions))
      else BoolN False)"

section \<open>Reading a rendered tree\<close>

text \<open>A node that leaves nothing on the screen.\<close>

fun renders_nothing :: "('n, 'w) node \<Rightarrow> bool" where
  "renders_nothing NullN = True"
| "renders_nothing UndefinedN = True"
| "renders_nothing (BoolN b) = True"
| "renders_nothing n = False"

text \<open>A child expression shows unless it evaluates to such a node.\<close>

fun slot_shows :: "err + ('n, 'w) node \<Rightarrow> bool" where
  "slot_shows (Inl e) = True"
| "slot_shows (Inr n) = (\<not> renders_nothing n)"

fun children :: "('n, 'w) node \<Rightarrow> ('n, 'w) node list" where
  "children (El t ps cs) = cs"
| "children n = []"

text \<open>Firing the \<^verbatim>\<open>onClick\<close> handler of an element on a state of the application.\<close>

fun click :: "('n, 'w) node \<Rightarrow> 'w \<Rightarrow> 'w outcome option" where
  "click (El t ps cs) w =
     (case map_of ps ''onClick'' of Some (PHandler f) \<Rightarrow> Some (f w) | _ \<Rightarrow> None)"
| "click n w = None"

text \<open>A list with a separating element between each two neighbours.\<close>

fun separated_by :: "'a \<Rightarrow> 'a list \<Rightarrow> 'a list" where
  "separated_by s [] = []"
| "separated_by s [x] = [x]"
| "separated_by s (x # y # ys) = x # s # separated_by s (y # ys)"

text \<open>
  Data is safe to convert to a string when every mapping inside it, at any depth, has
  \<^verbatim>\<open>Object.prototype\<close> as its prototype and no own property named \<^verbatim>\<open>toString\<close>. The members
  inherited from \<^verbatim>\<open>Object.prototype\<close> are safe.
\<close>

fun string_safe :: "'n jsval \<Rightarrow> bool" where
  "string_safe (JArr xs) = list_all string_safe xs"
| "string_safe (JObj p kvs) =
     (p = ObjectPrototype \<and> ''toString'' \<notin> set (map fst kvs) \<and>
      list_all (\<lambda>kv. string_safe (snd kv)) kvs)"
| "string_safe v = True"

fun input_safe :: "'n input \<Rightarrow> bool" where
  "input_safe (Data v) = string_safe v"
| "input_safe (BuiltinFunction k) = True"
| "input_safe PrototypeObject = True"

text \<open>A node that is an element, as opposed to a primitive child.\<close>

fun is_element :: "('n, 'w) node \<Rightarrow> bool" where
  "is_element (El t ps cs) = True"
| "is_element n = False"

section \<open>Sample configurations\<close>

text \<open>
  Concrete inputs for the examples that follow the theorems: a host whose numbers are the
  natural numbers and whose dates never parse, records that are plain objects, columns
  without options or custom render, a column whose custom render returns a fixed node, a
  choice of a \<^verbatim>\<open>select\<close> column, and actions whose callbacks append their key to a log of
  events, which stands for the state of the application; one of them raises after that.
\<close>

definition demo_host :: "nat host" where
  "demo_host =
     \<lparr>num_to_string = nat_to_string, num_to_locale = nat_to_string,
      num_truthy = (\<lambda>n. n \<noteq> 0), date_parse = (\<lambda>s. None), date_to_locale = nat_to_string,
      fun_to_string = (\<lambda>k. ''function '' @ k @ ''() { [native code] }'')\<rparr>"

definition plain_record :: "(string \<times> nat jsval) list \<Rightarrow> nat item" where
  "plain_record kvs = (ObjectPrototype, kvs)"

definition plain_column :: "string \<Rightarrow> string option \<Rightarrow> (nat, string list) column" where
  "plain_column k t =
     \<lparr>col_key = k, col_label = k, col_type = t, col_options = None, col_render = None\<rparr>"

definition choice :: "string \<Rightarrow> string \<Rightarrow> string option \<Rightarrow> (nat, string list) select_option" where
  "choice v l c = \<lparr>opt_value = v, opt_label = l, opt_color = c, opt_icon = UndefinedN\<rparr>"

definition select_column ::
  "(nat, string list) select_option list option \<Rightarrow> (nat, string list) column" where
  "select_column os =
     \<lparr>col_key = ''status'', col_label = ''Status'', col_type = Some ''select'',
      col_options = os, col_render = None\<rparr>"

definition custom_column ::
  "string option \<Rightarrow> (nat, string list) node \<Rightarrow> (nat, string list) column" where
  "custom_column t n =
     \<lparr>col_key = ''bio'', col_label = ''Bio'', col_type = t, col_options = None,
      col_render = Some (\<lambda>v item. Inr n)\<rparr>"

definition log_action ::
  "string \<Rightarrow> (nat item \<Rightarrow> bool) option \<Rightarrow> (nat, string list) action" where
  "log_action k c =
     \<lparr>act_key = k, act_label = k, act_variant = None, act_icon = NullN,
      act_onClick = (\<lambda>item w. Returned (w @ [k])), act_condition = c\<rparr>"

definition failing_action :: "string \<Rightarrow> (nat, string list) action" where
  "failing_action k =
     \<lparr>act_key = k, act_label = k, act_variant = None, act_icon = NullN,
      act_onClick = (\<lambda>item w. Raised (Thrown k) (w @ [k])), act_condition = None\<rparr>"

definition log_close :: "string list \<Rightarrow> string list outcome" where
  "log_close w = Returned (w @ [''close''])"

definition is_active :: "nat item \<Rightarrow> bool" where
  "is_active item = (item_get item ''status'' = Data (JStr ''active''))"

section \<open>Shared facts\<close>

lemma formatValue_builtin:
  "v \<noteq> Data JNull \<Longrightarrow> v \<noteq> Data JUndefined \<Longrightarrow> col_render col = None \<Longrightarrow>
   formatValue h item v (Some col) = format_by_type h v col"
  by (simp add: formatValue_def formatValue_traced_def)

lemma formatValue_absent:
  "formatValue h item (Data JNull) column =
     Inr (El ''span'' [cls ''text-muted-foreground italic''] [Txt ''Not provided''])"
  "formatValue h item (Data JUndefined) column =
     Inr (El ''span'' [cls ''text-muted-foreground italic''] [Txt ''Not provided''])"
  by (simp_all add: formatValue_def formatValue_traced_def not_provided_def sentinel_def)

lemma bind_err_Inr_iff: "bind_err r f = Inr y \<longleftrightarrow> (\<exists>x. r = Inr x \<and> f x = Inr y)"
  by (cases r) auto

lemma sequence_err_all_Inr: "sequence_err (map (\<lambda>x. Inr (f x)) xs) = Inr (map f xs)"
  by (induction xs) auto

lemma sequence_err_Inr:
  "(\<And>r. r \<in> set rs \<Longrightarrow> \<exists>x. r = Inr x) \<Longrightarrow> \<exists>xs. sequence_err rs = Inr xs"
proof (induction rs)
  case Nil
  then show ?case by simp
next
  case (Cons r rs)
  then obtain x where "r = Inr x" by auto
  moreover from Cons obtain xs where "sequence_err rs = Inr xs" by auto
  ultimately show ?case by simp
qed

section \<open>The field grouper\<close>

lemma basic_key_no_image: "k \<in> set basic_keys \<Longrightarrow> \<not> includes_str k ''image''"
  by (auto simp: basic_keys_def)

lemma meta_key_no_image: "k \<in> set meta_keys \<Longrightarrow> \<not> includes_str k ''image''"
  by (auto simp: meta_keys_def)

lemma basic_meta_keys_disjoint: "k \<in> set basic_keys \<Longrightarrow> k \<notin> set meta_keys"
  by (auto simp: basic_keys_def meta_keys_def)

text \<open>
  Claim C1 says that the four buckets never overlap. The filters for \<open>basic\<close>, \<open>media\<close> and
  \<open>meta\<close> run independently of each other: a column with key \<^verbatim>\<open>title\<close> and type \<^verbatim>\<open>image\<close>
  lands in \<open>basic\<close> and in \<open>media\<close>.
\<close>

theorem grouping_overlap_counterexample:
  "\<not> (set (basicFields [plain_column ''title'' (Some ''image'')]) \<inter>
       set (mediaFields [plain_column ''title'' (Some ''image'')]) = {})"
  by (simp add: basicFields_def mediaFields_def plain_column_def basic_keys_def)

text \<open>
  Claim C1, as amended: the four buckets cover the columns, every column lying in at least
  one of them; \<open>other\<close> shares no column with the three other buckets and \<open>basic\<close> shares
  none with \<open>meta\<close>; \<open>media\<close> is filled regardless of the other buckets, and the columns it
  shares with \<open>basic\<close> (with \<open>meta\<close>) are exactly the columns of type \<^verbatim>\<open>image\<close> whose key
  is one of the basic (meta) keys. Each bucket keeps the order of the columns: \<open>basic\<close>
  holds those with one of the five basic keys, \<open>media\<close> those of type \<^verbatim>\<open>image\<close> or with
  \<^verbatim>\<open>image\<close> in their key, \<open>meta\<close> those with one of the six meta keys, and \<open>other\<close> those
  that are in none of the three.
\<close>

theorem grouping_cover:
  "set (basicFields cs) \<union> set (mediaFields cs) \<union> set (otherFields cs) \<union> set (metaFields cs) =
     set cs \<and>
   set (otherFields cs) \<inter>
     (set (basicFields cs) \<union> set (mediaFields cs) \<union> set (metaFields cs)) = {} \<and>
   set (basicFields cs) \<inter> set (metaFields cs) = {} \<and>
   set (basicFields cs) \<inter> set (mediaFields cs) =
     {c \<in> set cs. col_key c \<in> set basic_keys \<and> col_type c = Some ''image''} \<and>
   set (metaFields cs) \<inter> set (mediaFields cs) =
     {c \<in> set cs. col_key c \<in> set meta_keys \<and> col_type c = Some ''image''} \<and>
   basicFields cs =
     filter (\<lambda>c. col_key c \<in> {''title'', ''subtitle'', ''name'', ''email'', ''phone''}) cs \<and>
   mediaFields cs =
     filter (\<lambda>c. col_type c = Some ''image'' \<or> includes_str (col_key c) ''image'') cs \<and>
   metaFields cs =
     filter (\<lambda>c. col_key c \<in>
                {''createdAt'', ''updatedAt'', ''author'', ''views'', ''priority'', ''status''}) cs \<and>
   otherFields cs =
     filter (\<lambda>c. col_key c \<notin> {''title'', ''subtitle'', ''name'', ''email'', ''phone''} \<and>
                col_type c \<noteq> Some ''image'' \<and> \<not> includes_str (col_key c) ''image'' \<and>
                col_key c \<notin>
                  {''createdAt'', ''updatedAt'', ''author'', ''views'', ''priority'', ''status''}) cs"
proof (intro conjI)
  show "set (basicFields cs) \<union> set (mediaFields cs) \<union> set (otherFields cs) \<union>
          set (metaFields cs) = set cs"
    by (auto simp: basicFields_def mediaFields_def otherFields_def metaFields_def)
  show "set (otherFields cs) \<inter>
          (set (basicFields cs) \<union> set (mediaFields cs) \<union> set (metaFields cs)) = {}"
    by (auto simp: otherFields_def)
  show "set (basicFields cs) \<inter> set (metaFields cs) = {}"
    using basic_meta_keys_disjoint by (auto simp: basicFields_def metaFields_def)
  show "set (basicFields cs) \<inter> set (mediaFields cs) =
          {c \<in> set cs. col_key c \<in> set basic_keys \<and> col_type c = Some ''image''}"
    using basic_key_no_image by (auto simp: basicFields_def mediaFields_def)
  show "set (metaFields cs) \<inter> set (mediaFields cs) =
          {c \<in> set cs. col_key c \<in> set meta_keys \<and> col_type c = Some ''image''}"
    using meta_key_no_image by (auto simp: metaFields_def mediaFields_def)
  show "basicFields cs =
          filter (\<lambda>c. col_key c \<in> {''title'', ''subtitle'', ''name'', ''email'', ''phone''}) cs"
    by (simp add: basicFields_def basic_keys_def)
  show "mediaFields cs =
          filter (\<lambda>c. col_type c = Some ''image'' \<or> includes_str (col_key c) ''image'') cs"
    by (simp add: mediaFields_def)
  show "metaFields cs =
          filter (\<lambda>c. col_key c \<in>
                     {''createdAt'', ''updatedAt'', ''author'', ''views'', ''priority'', ''status''}) cs"
    by (simp add: metaFields_def meta_keys_def)
  show "otherFields cs =
     filter (\<lambda>c. col_key c \<notin> {''title'', ''subtitle'', ''name'', ''email'', ''phone''} \<and>
                col_type c \<noteq> Some ''image'' \<and> \<not> includes_str (col_key c) ''image'' \<and>
                col_key c \<notin>
                  {''createdAt'', ''updatedAt'', ''author'', ''views'', ''priority'', ''status''}) cs"
    unfolding otherFields_def
    by (rule filter_cong [OF refl])
      (auto simp: basicFields_def mediaFields_def metaFields_def basic_keys_def meta_keys_def)
qed

text \<open>The amended claim on four columns, one for each bucket.\<close>

theorem grouping_cover_witness:
  "set (basicFields [plain_column ''email'' None, plain_column ''avatar'' (Some ''image''),
          plain_column ''bio'' None, plain_column ''status'' None]) \<union>
   set (mediaFields [plain_column ''email'' None, plain_column ''avatar'' (Some ''image''),
          plain_column ''bio'' None, plain_column ''status'' None]) \<union>
   set (otherFields [plain_column ''email'' None, plain_column ''avatar'' (Some ''image''),
          plain_column ''bio'' None, plain_column ''status'' None]) \<union>
   set (metaFields [plain_column ''email'' None, plain_column ''avatar'' (Some ''image''),
          plain_column ''bio'' None, plain_column ''status'' None]) =
   {plain_column ''email'' None, plain_column ''avatar'' (Some ''image''),
    plain_column ''bio'' None, plain_column ''status'' None} \<and>
   basicFields [plain_column ''email'' None, plain_column ''avatar'' (Some ''image''),
          plain_column ''bio'' None, plain_column ''status'' None] =
     [plain_column ''email'' None] \<and>
   mediaFields [plain_column ''email'' None, plain_column ''avatar'' (Some ''image''),
          plain_column ''bio'' None, plain_column ''status'' None] =
     [plain_column ''avatar'' (Some ''image'')] \<and>
   otherFields [plain_column ''email'' None, plain_column ''avatar'' (Some ''image''),
          plain_column ''bio'' None, plain_column ''status'' None] =
     [plain_column ''bio'' None] \<and>
   metaFields [plain_column ''email'' None, plain_column ''avatar'' (Some ''image''),
          plain_column ''bio'' None, plain_column ''status'' None] =
     [plain_column ''status'' None]"
  using grouping_cover [of "[plain_column ''email'' None, plain_column ''avatar'' (Some ''image''),
          plain_column ''bio'' None, plain_column ''status'' None]"]
  by (auto simp: plain_column_def)

section \<open>Absent values and custom render functions\<close>

text \<open>
  Claim C2: whatever the column is (any declared type, with or without a custom render
  function, even no column at all) and whatever the record is, the formatter returns for
  \<^verbatim>\<open>null\<close> and for \<^verbatim>\<open>undefined\<close> the placeholder of line 49, a \<^verbatim>\<open>span\<close> of class
  \<^verbatim>\<open>text-muted-foreground italic\<close> with the text \<^verbatim>\<open>Not provided\<close>; nothing of the column is
  consulted before, and the custom render function is not called.
\<close>

theorem formatValue_null_not_provided:
  "formatValue h item (Data JNull) column =
     Inr (El ''span'' [(''className'', PStr ''text-muted-foreground italic'')]
            [Txt ''Not provided'']) \<and>
   formatValue h item (Data JUndefined) column =
     Inr (El ''span'' [(''className'', PStr ''text-muted-foreground italic'')]
            [Txt ''Not provided'']) \<and>
   formatValue_traced h item (Data JNull) column =
     ([], Inr (El ''span'' [(''className'', PStr ''text-muted-foreground italic'')]
                 [Txt ''Not provided''])) \<and>
   formatValue_traced h item (Data JUndefined) column =
     ([], Inr (El ''span'' [(''className'', PStr ''text-muted-foreground italic'')]
                 [Txt ''Not provided'']))"
  by (simp add: formatValue_def formatValue_traced_def not_provided_def sentinel_def)

text \<open>
  The claim on a record without the key \<^verbatim>\<open>bio\<close>, for a date column with a custom render,
  on a record that holds \<^verbatim>\<open>null\<close> under \<^verbatim>\<open>status\<close>, for a \<^verbatim>\<open>select\<close> column, and for no column.
\<close>

theorem formatValue_null_not_provided_witness:
  "formatValue demo_host (plain_record [(''name'', JStr ''Ada'')])
     (item_get (plain_record [(''name'', JStr ''Ada'')]) ''bio'')
     (Some (custom_column (Some ''date'') (Txt ''custom''))) =
     Inr (El ''span'' [(''className'', PStr ''text-muted-foreground italic'')]
            [Txt ''Not provided'']) \<and>
   formatValue demo_host (plain_record [(''status'', JNull)])
     (item_get (plain_record [(''status'', JNull)]) ''status'')
     (Some (select_column None)) =
     Inr (El ''span'' [(''className'', PStr ''text-muted-foreground italic'')]
            [Txt ''Not provided'']) \<and>
   formatValue demo_host (plain_record []) (Data JUndefined)
     (None :: (nat, string list) column option) =
     Inr (El ''span'' [(''className'', PStr ''text-muted-foreground italic'')]
            [Txt ''Not provided''])"
  using
    formatValue_null_not_provided [of demo_host "plain_record [(''name'', JStr ''Ada'')]"
      "Some (custom_column (Some ''date'') (Txt ''custom''))"]
    formatValue_null_not_provided [of demo_host "plain_record [(''status'', JNull)]"
      "Some (select_column None)"]
    formatValue_null_not_provided [of demo_host "plain_record []"
      "None :: (nat, string list) column option"]
  by (simp add: item_get_def plain_record_def object_prototype_functions_def)

text \<open>
  Claim C9: the formatter never calls a column's custom render function on \<^verbatim>\<open>null\<close> or
  \<^verbatim>\<open>undefined\<close>: for such a value it makes no call at all, and every call it makes passes
  the value at hand, which is neither, together with the record.
\<close>

theorem render_called_on_present_values_only:
  "((v = Data JNull \<or> v = Data JUndefined) \<longrightarrow> render_calls h item v column = []) \<and>
   (\<forall>(u, i) \<in> set (render_calls h item v column).
      u \<noteq> Data JNull \<and> u \<noteq> Data JUndefined \<and> u = v \<and> i = item)"
  by (auto simp: render_calls_def formatValue_traced_def split: option.splits)

text \<open>
  The claim on a column with a custom render: no call for \<^verbatim>\<open>null\<close>, and one call, on the
  value itself, for a string.
\<close>

theorem render_called_on_present_values_only_witness:
  "(Data JNull = (Data JNull :: nat input) \<or> Data JNull = (Data JUndefined :: nat input)) \<and>
   render_calls demo_host (plain_record []) (Data JNull)
     (Some (custom_column None (Txt ''custom''))) = [] \<and>
   render_calls demo_host (plain_record []) (Data (JStr ''hi''))
     (Some (custom_column None (Txt ''custom''))) \<noteq> [] \<and>
   (Data JNull, plain_record []) \<notin>
     set (render_calls demo_host (plain_record []) (Data (JStr ''hi''))
            (Some (custom_column None (Txt ''custom'')))) \<and>
   (Data JUndefined, plain_record []) \<notin>
     set (render_calls demo_host (plain_record []) (Data (JStr ''hi''))
            (Some (custom_column None (Txt ''custom''))))"
proof -
  have called: "render_calls demo_host (plain_record []) (Data (JStr ''hi''))
      (Some (custom_column None (Txt ''custom''))) \<noteq> []"
    by (simp add: render_calls_def formatValue_traced_def custom_column_def)
  show ?thesis
    using render_called_on_present_values_only [of "Data JNull" demo_host "plain_record []"
        "Some (custom_column None (Txt ''custom''))"]
      render_called_on_present_values_only [of "Data (JStr ''hi'')" demo_host "plain_record []"
        "Some (custom_column None (Txt ''custom''))"]
      called
    by auto
qed

section \<open>Type-specific formatting\<close>

subsection \<open>Choices\<close>

text \<open>
  Claim C3 speaks of every input value of a \<^verbatim>\<open>select\<close> column. The values \<^verbatim>\<open>null\<close> and
  \<^verbatim>\<open>undefined\<close> never reach the lookup: \<^verbatim>\<open>null\<close> yields the ``Not provided'' placeholder
  even when a choice has the value \<^verbatim>\<open>"null"\<close>, and it is not shown in a generic badge when
  there are no choices.
\<close>

theorem select_null_counterexample:
  "input_String demo_host (Data JNull) = Inr ''null'' \<and>
   find (\<lambda>opt. opt_value opt = ''null'') [choice ''null'' ''None'' None] =
     Some (choice ''null'' ''None'' None) \<and>
   formatValue demo_host (plain_record []) (Data JNull)
     (Some (select_column (Some [choice ''null'' ''None'' None]))) \<noteq>
     Inr (option_badge demo_host (choice ''null'' ''None'' None)) \<and>
   formatValue demo_host (plain_record []) (Data JNull) (Some (select_column None)) \<noteq>
     Inr (outline_badge ''null'') \<and>
   formatValue demo_host (plain_record []) (Data JNull)
     (Some (select_column (Some [choice ''null'' ''None'' None]))) =
     Inr (El ''span'' [(''className'', PStr ''text-muted-foreground italic'')]
            [Txt ''Not provided''])"
  by (simp add: formatValue_def formatValue_traced_def not_provided_def sentinel_def
      option_badge_def outline_badge_def choice_def)

text \<open>
  Claim C3, as amended: for a column of type \<^verbatim>\<open>select\<close> without custom render and a value
  other than \<^verbatim>\<open>null\<close> and \<^verbatim>\<open>undefined\<close> whose string conversion is \<open>s\<close>: if some choice
  has the value \<open>s\<close>, the formatter returns the badge of the first such choice (variant
  \<^verbatim>\<open>secondary\<close>, tinted by its colour when it has one, its icon in a \<^verbatim>\<open>span\<close> when it has
  one, its label); if none has, or the column has no choices, it returns the generic badge
  of variant \<^verbatim>\<open>outline\<close> showing \<open>s\<close>. For \<^verbatim>\<open>null\<close> and \<^verbatim>\<open>undefined\<close> it returns the
  ``Not provided'' placeholder, whatever the choices are.
\<close>

theorem select_badge:
  assumes "col_type col = Some ''select''" and "col_render col = None"
  shows "(v \<noteq> Data JNull \<and> v \<noteq> Data JUndefined \<and> input_String h v = Inr s \<longrightarrow>
            (\<forall>os. col_options col = Some os \<and> (\<exists>opt \<in> set os. opt_value opt = s) \<longrightarrow>
               (\<exists>opt \<in> set os. opt_value opt = s \<and>
                  find (\<lambda>opt. opt_value opt = s) os = Some opt \<and>
                  formatValue h item v (Some col) = Inr (option_badge h opt) \<and>
                  option_badge h opt =
                    El ''Badge''
                      [(''variant'', PStr ''secondary''),
                       (''style'',
                          (case opt_color opt of
                             None \<Rightarrow> PUndefined
                           | Some c \<Rightarrow>
                               if c \<noteq> []
                               then PStyle [(''backgroundColor'', c @ ''20''), (''color'', c)]
                               else PUndefined))]
                      [if node_truthy h (opt_icon opt)
                       then El ''span'' [(''className'', PStr ''mr-1'')] [opt_icon opt]
                       else opt_icon opt,
                       Txt (opt_label opt)])) \<and>
            ((col_options col = None \<or>
              (\<exists>os. col_options col = Some os \<and> (\<forall>opt \<in> set os. opt_value opt \<noteq> s))) \<longrightarrow>
               formatValue h item v (Some col) = Inr (outline_badge s) \<and>
               outline_badge s = El ''Badge'' [(''variant'', PStr ''outline'')] [Txt s])) \<and>
         formatValue h item (Data JNull) (Some col) =
           Inr (El ''span'' [(''className'', PStr ''text-muted-foreground italic'')]
                  [Txt ''Not provided'']) \<and>
         formatValue h item (Data JUndefined) (Some col) =
           Inr (El ''span'' [(''className'', PStr ''text-muted-foreground italic'')]
                  [Txt ''Not provided''])"
proof (intro conjI impI allI)
  assume v: "v \<noteq> Data JNull \<and> v \<noteq> Data JUndefined \<and> input_String h v = Inr s"
  then have fv: "formatValue h item v (Some col) = Inr (format_select h (col_options col) s)"
    using assms by (simp add: formatValue_builtin format_by_type_def)
  {
    fix os
    assume a: "col_options col = Some os \<and> (\<exists>opt \<in> set os. opt_value opt = s)"
    then obtain opt where f: "find (\<lambda>opt. opt_value opt = s) os = Some opt"
      by (cases "find (\<lambda>opt. opt_value opt = s) os") (auto simp: find_None_iff)
    then have "opt \<in> set os" "opt_value opt = s"
      by (auto simp: find_Some_iff)
    with f a fv
    show "\<exists>opt \<in> set os. opt_value opt = s \<and>
            find (\<lambda>opt. opt_value opt = s) os = Some opt \<and>
            formatValue h item v (Some col) = Inr (option_badge h opt) \<and>
            option_badge h opt =
              El ''Badge''
                [(''variant'', PStr ''secondary''),
                 (''style'',
                    (case opt_color opt of
                       None \<Rightarrow> PUndefined
                     | Some c \<Rightarrow>
                         if c \<noteq> []
                         then PStyle [(''backgroundColor'', c @ ''20''), (''color'', c)]
                         else PUndefined))]
                [if node_truthy h (opt_icon opt)
                 then El ''span'' [(''className'', PStr ''mr-1'')] [opt_icon opt]
                 else opt_icon opt,
                 Txt (opt_label opt)]"
      by (auto simp: format_select_def option_badge_def)
  }
  {
    assume "col_options col = None \<or>
            (\<exists>os. col_options col = Some os \<and> (\<forall>opt \<in> set os. opt_value opt \<noteq> s))"
    then have "col_options col = None \<or>
               (\<exists>os. col_options col = Some os \<and> find (\<lambda>opt. opt_value opt = s) os = None)"
      by (auto simp: find_None_iff)
    then show "formatValue h item v (Some col) = Inr (outline_badge s)"
      using fv by (auto simp: format_select_def)
    show "outline_badge s = El ''Badge'' [(''variant'', PStr ''outline'')] [Txt s]"
      by (simp add: outline_badge_def)
  }
next
  show "formatValue h item (Data JNull) (Some col) =
           Inr (El ''span'' [(''className'', PStr ''text-muted-foreground italic'')]
                  [Txt ''Not provided''])"
    by (rule formatValue_absent)
  show "formatValue h item (Data JUndefined) (Some col) =
           Inr (El ''span'' [(''className'', PStr ''text-muted-foreground italic'')]
                  [Txt ''Not provided''])"
    by (rule formatValue_absent)
qed

text \<open>
  The amended claim on a column with two choices: \<^verbatim>\<open>"active"\<close> gets the tinted badge of its
  choice, \<^verbatim>\<open>"archived"\<close> the generic badge.
\<close>

theorem select_badge_witness:
  "formatValue demo_host (plain_record []) (Data (JStr ''active''))
     (Some (select_column
        (Some [choice ''inactive'' ''Off'' None, choice ''active'' ''On'' (Some ''#0a0'')]))) =
     Inr (El ''Badge''
            [(''variant'', PStr ''secondary''),
             (''style'', PStyle [(''backgroundColor'', ''#0a020''), (''color'', ''#0a0'')])]
            [UndefinedN, Txt ''On'']) \<and>
   formatValue demo_host (plain_record []) (Data (JStr ''archived''))
     (Some (select_column
        (Some [choice ''inactive'' ''Off'' None, choice ''active'' ''On'' (Some ''#0a0'')]))) =
     Inr (El ''Badge'' [(''variant'', PStr ''outline'')] [Txt ''archived''])"
  using
    select_badge [where col = "select_column
        (Some [choice ''inactive'' ''Off'' None, choice ''active'' ''On'' (Some ''#0a0'')])"
      and v = "Data (JStr ''active'')" and h = demo_host and s = "''active''"
      and item = "plain_record []"]
    select_badge [where col = "select_column
        (Some [choice ''inactive'' ''Off'' None, choice ''active'' ''On'' (Some ''#0a0'')])"
      and v = "Data (JStr ''archived'')" and h = demo_host and s = "''archived''"
      and item = "plain_record []"]
  by (auto simp: select_column_def choice_def)

subsection \<open>Images\<close>

lemma js_trim_empty_iff: "js_trim s = [] \<longleftrightarrow> (\<forall>c \<in> set s. is_ws c)"
proof
  assume "js_trim s = []"
  then have a: "\<forall>c \<in> set (dropWhile is_ws s). is_ws c"
    by (simp add: js_trim_def dropWhile_eq_Nil_conv)
  have "dropWhile is_ws s = []"
  proof (rule ccontr)
    assume ne: "dropWhile is_ws s \<noteq> []"
    then have "\<not> is_ws (hd (dropWhile is_ws s))" by (rule hd_dropWhile)
    moreover from ne have "hd (dropWhile is_ws s) \<in> set (dropWhile is_ws s)" by simp
    ultimately show False using a by blast
  qed
  then show "\<forall>c \<in> set s. is_ws c" by (simp add: dropWhile_eq_Nil_conv)
next
  assume "\<forall>c \<in> set s. is_ws c"
  then show "js_trim s = []" by (auto simp: js_trim_def dest: set_dropWhileD)
qed

lemma thumbnails_of_strings:
  "map (\<lambda>(index, img). bind_err (js_String h img) (\<lambda>src. Inr (g index src)))
     (enumerate n (map JStr ss)) =
   map (\<lambda>p. Inr (g (fst p) (snd p))) (enumerate n ss)"
  by (induction ss arbitrary: n) auto

text \<open>
  Claim C4: for a column of type \<^verbatim>\<open>image\<close> without custom render, a string with a
  character that is not white space yields the single image: an \<^verbatim>\<open>Image\<close> element with the
  string as source, 400 by 300, in its two wrappers. An array of \<open>n \<ge> 1\<close> strings yields
  the grid of \<open>n\<close> thumbnails, one \<^verbatim>\<open>Image\<close> element of 150 by 150 for each string, in order
  and numbered from 1 in its alternative text, followed by the caption made of \<open>n\<close>, the
  text \<^verbatim>\<open> image\<close> and an \<^verbatim>\<open>s\<close> when \<open>n > 1\<close>. The empty array and a string of white space
  only (the empty string among them) yield the placeholder with the text \<^verbatim>\<open>No image\<close>. An
  image is marked unoptimized exactly when its source starts with \<^verbatim>\<open>data:\<close> or \<^verbatim>\<open>blob:\<close>.
\<close>

theorem image_rendering:
  fixes col :: "('n, 'w) column"
  assumes "col_type col = Some ''image''" and "col_render col = None"
  shows "((\<exists>c \<in> set s. \<not> is_ws c) \<longrightarrow>
            formatValue h item (Data (JStr s)) (Some col) =
              Inr (El ''div'' [(''className'', PStr ''space-y-2'')]
                     [El ''div'' [(''className'', PStr ''relative w-full max-w-md mx-auto'')]
                        [El ''Image''
                           [(''src'', PStr s), (''alt'', PStr ''Detail image''),
                            (''width'', PNat 400), (''height'', PNat 300),
                            (''className'', PStr ''rounded-lg border object-cover w-full''),
                            (''unoptimized'',
                               PBool (startsWith s ''data:'' \<or> startsWith s ''blob:''))]
                           []]])) \<and>
         (ss \<noteq> [] \<longrightarrow>
            formatValue h item (Data (JArr (map JStr ss))) (Some col) =
              Inr (El ''div'' [(''className'', PStr ''space-y-3'')]
                     [El ''div'' [(''className'', PStr ''grid grid-cols-2 sm:grid-cols-3 gap-3'')]
                        (map (\<lambda>p. El ''div''
                                      [(''key'', PNat (fst p)),
                                       (''className'', PStr ''relative aspect-square'')]
                                      [El ''Image''
                                         [(''src'', PStr (snd p)),
                                          (''alt'', PStr (''Image '' @ nat_to_string (fst p + 1))),
                                          (''width'', PNat 150), (''height'', PNat 150),
                                          (''className'',
                                             PStr ''rounded-lg border object-cover w-full h-full''),
                                          (''unoptimized'',
                                             PBool (startsWith (snd p) ''data:'' \<or>
                                                    startsWith (snd p) ''blob:''))]
                                         []])
                           (enumerate 0 ss)),
                      El ''p'' [(''className'', PStr ''text-sm text-muted-foreground text-center'')]
                        [NatN (length ss), Txt '' image'',
                         Txt (if length ss > 1 then ''s'' else [])]]) \<and>
            length (enumerate 0 ss) = length ss \<and> map snd (enumerate 0 ss) = ss) \<and>
         formatValue h item (Data (JArr [])) (Some col) =
           Inr (El ''span'' [(''className'', PStr ''text-muted-foreground italic'')]
                  [Txt ''No image'']) \<and>
         ((\<forall>c \<in> set s. is_ws c) \<longrightarrow>
            formatValue h item (Data (JStr s)) (Some col) =
              Inr (El ''span'' [(''className'', PStr ''text-muted-foreground italic'')]
                     [Txt ''No image'']))"
proof -
  have fv: "\<And>v. v \<noteq> Data JNull \<Longrightarrow> v \<noteq> Data JUndefined \<Longrightarrow>
      formatValue h item v (Some col) = (format_image h v :: err + ('n, 'w) node)"
    using assms by (simp add: formatValue_builtin format_by_type_def)
  have single: "(\<exists>c \<in> set s. \<not> is_ws c) \<longrightarrow>
      formatValue h item (Data (JStr s)) (Some col) = Inr (single_image s)"
    using js_trim_empty_iff [of s] by (auto simp: fv format_image_def)
  have blank: "(\<forall>c \<in> set s. is_ws c) \<longrightarrow>
      formatValue h item (Data (JStr s)) (Some col) = Inr no_image"
    using js_trim_empty_iff [of s] by (auto simp: fv format_image_def)
  have none: "formatValue h item (Data (JArr [])) (Some col) = Inr no_image"
    by (simp add: fv format_image_def)
  have grid: "ss \<noteq> [] \<longrightarrow>
      formatValue h item (Data (JArr (map JStr ss))) (Some col) =
        Inr (image_grid (map (\<lambda>p. thumbnail (fst p) (snd p)) (enumerate 0 ss)) (length ss))"
    by (simp add: fv format_image_def thumbnails_of_strings sequence_err_all_Inr)
  show ?thesis
    using single grid none blank
    by (simp add: single_image_def no_image_def sentinel_def image_grid_def image_caption_def
        thumbnail_def unoptimized_def)
qed

text \<open>
  The claim on a URL, on two file names, on one file name, on the empty array, on two
  spaces and on the empty string.
\<close>

theorem image_rendering_witness:
  "formatValue demo_host (plain_record []) (Data (JStr ''https://x/a.png''))
     (Some (plain_column ''photo'' (Some ''image''))) =
     Inr (El ''div'' [(''className'', PStr ''space-y-2'')]
            [El ''div'' [(''className'', PStr ''relative w-full max-w-md mx-auto'')]
               [El ''Image''
                  [(''src'', PStr ''https://x/a.png''), (''alt'', PStr ''Detail image''),
                   (''width'', PNat 400), (''height'', PNat 300),
                   (''className'', PStr ''rounded-lg border object-cover w-full''),
                   (''unoptimized'', PBool False)]
                  []]]) \<and>
   formatValue demo_host (plain_record []) (Data (JArr [JStr ''a.png'', JStr ''data:b'']))
     (Some (plain_column ''photo'' (Some ''image''))) =
     Inr (El ''div'' [(''className'', PStr ''space-y-3'')]
            [El ''div'' [(''className'', PStr ''grid grid-cols-2 sm:grid-cols-3 gap-3'')]
               [El ''div'' [(''key'', PNat 0), (''className'', PStr ''relative aspect-square'')]
                  [El ''Image''
                     [(''src'', PStr ''a.png''), (''alt'', PStr ''Image 1''),
                      (''width'', PNat 150), (''height'', PNat 150),
                      (''className'', PStr ''rounded-lg border object-cover w-full h-full''),
                      (''unoptimized'', PBool False)]
                     []],
                El ''div'' [(''key'', PNat 1), (''className'', PStr ''relative aspect-square'')]
                  [El ''Image''
                     [(''src'', PStr ''data:b''), (''alt'', PStr ''Image 2''),
                      (''width'', PNat 150), (''height'', PNat 150),
                      (''className'', PStr ''rounded-lg border object-cover w-full h-full''),
                      (''unoptimized'', PBool True)]
                     []]],
             El ''p'' [(''className'', PStr ''text-sm text-muted-foreground text-center'')]
               [NatN 2, Txt '' image'', Txt ''s'']]) \<and>
   formatValue demo_host (plain_record []) (Data (JArr [JStr ''a.png'']))
     (Some (plain_column ''photo'' (Some ''image''))) =
     Inr (El ''div'' [(''className'', PStr ''space-y-3'')]
            [El ''div'' [(''className'', PStr ''grid grid-cols-2 sm:grid-cols-3 gap-3'')]
               [El ''div'' [(''key'', PNat 0), (''className'', PStr ''relative aspect-square'')]
                  [El ''Image''
                     [(''src'', PStr ''a.png''), (''alt'', PStr ''Image 1''),
                      (''width'', PNat 150), (''height'', PNat 150),
                      (''className'', PStr ''rounded-lg border object-cover w-full h-full''),
                      (''unoptimized'', PBool False)]
                     []]],
             El ''p'' [(''className'', PStr ''text-sm text-muted-foreground text-center'')]
               [NatN 1, Txt '' image'', Txt []]]) \<and>
   formatValue demo_host (plain_record []) (Data (JArr []))
     (Some (plain_column ''photo'' (Some ''image''))) =
     Inr (El ''span'' [(''className'', PStr ''text-muted-foreground italic'')]
            [Txt ''No image'']) \<and>
   formatValue demo_host (plain_record []) (Data (JStr ''  ''))
     (Some (plain_column ''photo'' (Some ''image''))) =
     Inr (El ''span'' [(''className'', PStr ''text-muted-foreground italic'')]
            [Txt ''No image'']) \<and>
   formatValue demo_host (plain_record []) (Data (JStr []))
     (Some (plain_column ''photo'' (Some ''image''))) =
     Inr (El ''span'' [(''className'', PStr ''text-muted-foreground italic'')]
            [Txt ''No image''])"
proof -
  have one: "nat_to_string (Suc 0) = ''1''"
    by code_simp
  have two: "nat_to_string (Suc (Suc 0)) = ''2''"
    by code_simp
  show ?thesis
    using
      image_rendering [where col = "plain_column ''photo'' (Some ''image'')" and h = demo_host
        and item = "plain_record []" and s = "''https://x/a.png''"
        and ss = "[''a.png'', ''data:b'']"]
      image_rendering [where col = "plain_column ''photo'' (Some ''image'')" and h = demo_host
        and item = "plain_record []" and s = "''  ''" and ss = "[''a.png'']"]
      image_rendering [where col = "plain_column ''photo'' (Some ''image'')" and h = demo_host
        and item = "plain_record []" and s = "[]" and ss = "[''a.png'']"]
    by (simp add: plain_column_def is_ws_def enumerate_eq_zip one two)
qed

subsection \<open>Long text\<close>

lemma replace_newlines_id: "CHR 0x0A \<notin> set s \<Longrightarrow> replace_newlines s = s"
  by (induction s) (auto simp: replace_newlines_def)

text \<open>
  Claim C10 speaks of every value of a \<^verbatim>\<open>textarea\<close> column. For \<^verbatim>\<open>null\<close> the output is the
  ``Not provided'' placeholder and embeds no markup made from the text \<^verbatim>\<open>null\<close>.
\<close>

theorem textarea_null_counterexample:
  "input_String demo_host (Data JNull) = Inr ''null'' \<and>
   formatValue demo_host (plain_record []) (Data JNull)
     (Some (plain_column ''notes'' (Some ''textarea''))) \<noteq>
     Inr (format_textarea ''null'') \<and>
   formatValue demo_host (plain_record []) (Data JNull)
     (Some (plain_column ''notes'' (Some ''textarea''))) =
     Inr (El ''span'' [(''className'', PStr ''text-muted-foreground italic'')]
            [Txt ''Not provided''])"
  by (simp add: formatValue_def formatValue_traced_def not_provided_def sentinel_def
      format_textarea_def)

text \<open>
  Claim C10, as amended: for a column of type \<^verbatim>\<open>textarea\<close> without custom render and a
  value other than \<^verbatim>\<open>null\<close> and \<^verbatim>\<open>undefined\<close> whose string conversion is \<open>s\<close>, the output hands
  \<open>s\<close>, each line feed replaced by the tag \<^verbatim>\<open><br>\<close> and every other character unchanged, to
  \<^verbatim>\<open>dangerouslySetInnerHTML\<close>: it is raw markup, not a text child, and a text without line
  feed is passed as it is. For \<^verbatim>\<open>null\<close> and \<^verbatim>\<open>undefined\<close> the output is the ``Not provided''
  placeholder.
\<close>

theorem textarea_raw_html:
  assumes "col_type col = Some ''textarea''" and "col_render col = None"
  shows "(v \<noteq> Data JNull \<and> v \<noteq> Data JUndefined \<and> input_String h v = Inr s \<longrightarrow>
            formatValue h item v (Some col) =
              Inr (El ''div'' [(''className'', PStr ''prose prose-sm max-w-none'')]
                     [El ''div''
                        [(''className'', PStr ''whitespace-pre-wrap text-sm leading-relaxed''),
                         (''dangerouslySetInnerHTML'', PHtml (replace_newlines s))] []]) \<and>
            replace_newlines s = concat (map (\<lambda>c. if c = CHR 0x0A then ''<br>'' else [c]) s) \<and>
            (CHR 0x0A \<notin> set s \<longrightarrow> replace_newlines s = s)) \<and>
         formatValue h item (Data JNull) (Some col) =
           Inr (El ''span'' [(''className'', PStr ''text-muted-foreground italic'')]
                  [Txt ''Not provided'']) \<and>
         formatValue h item (Data JUndefined) (Some col) =
           Inr (El ''span'' [(''className'', PStr ''text-muted-foreground italic'')]
                  [Txt ''Not provided''])"
proof (intro conjI impI)
  assume v: "v \<noteq> Data JNull \<and> v \<noteq> Data JUndefined \<and> input_String h v = Inr s"
  then show "formatValue h item v (Some col) =
      Inr (El ''div'' [(''className'', PStr ''prose prose-sm max-w-none'')]
             [El ''div''
                [(''className'', PStr ''whitespace-pre-wrap text-sm leading-relaxed''),
                 (''dangerouslySetInnerHTML'', PHtml (replace_newlines s))] []])"
    using assms by (simp add: formatValue_builtin format_by_type_def format_textarea_def)
  show "replace_newlines s = concat (map (\<lambda>c. if c = CHR 0x0A then ''<br>'' else [c]) s)"
    by (simp add: replace_newlines_def)
  show "replace_newlines s = s" if "CHR 0x0A \<notin> set s"
    using that by (rule replace_newlines_id)
next
  show "formatValue h item (Data JNull) (Some col) =
           Inr (El ''span'' [(''className'', PStr ''text-muted-foreground italic'')]
                  [Txt ''Not provided''])"
    by (rule formatValue_absent)
  show "formatValue h item (Data JUndefined) (Some col) =
           Inr (El ''span'' [(''className'', PStr ''text-muted-foreground italic'')]
                  [Txt ''Not provided''])"
    by (rule formatValue_absent)
qed

text \<open>The amended claim on two lines of text, the first with markup of its own.\<close>

theorem textarea_raw_html_witness:
  "formatValue demo_host (plain_record []) (Data (JStr (''<b>x</b>'' @ [CHR 0x0A] @ ''y'')))
     (Some (plain_column ''notes'' (Some ''textarea''))) =
     Inr (El ''div'' [(''className'', PStr ''prose prose-sm max-w-none'')]
            [El ''div''
               [(''className'', PStr ''whitespace-pre-wrap text-sm leading-relaxed''),
                (''dangerouslySetInnerHTML'', PHtml ''<b>x</b><br>y'')] []])"
  using textarea_raw_html [where col = "plain_column ''notes'' (Some ''textarea'')"
      and v = "Data (JStr (''<b>x</b>'' @ [CHR 0x0A] @ ''y''))" and h = demo_host
      and s = "''<b>x</b>'' @ [CHR 0x0A] @ ''y''" and item = "plain_record []"]
  by (simp add: plain_column_def replace_newlines_def)

section \<open>The dialog around the fields\<close>

subsection \<open>Actions\<close>

text \<open>
  Claim C5 says that a click runs the action's callback and then the close callback,
  unconditionally. The handler has no \<^verbatim>\<open>try\<close> around the first call: when the callback of
  a shown action raises, the click ends with that exception, on the state the callback
  had reached, and the close callback has not run.
\<close>

theorem click_skips_close_counterexample:
  "actions_bar (plain_record []) log_close [failing_action ''save''] =
     El ''div'' [(''className'', PStr ''flex flex-wrap gap-2 pt-4 border-t justify-end'')]
       [action_button (plain_record []) log_close (failing_action ''save'')] \<and>
   click (action_button (plain_record []) log_close (failing_action ''save'')) [] =
     Some (Raised (Thrown ''save'') [''save'']) \<and>
   click (action_button (plain_record []) log_close (failing_action ''save'')) [] \<noteq>
     Some (log_close [''save''])"
  by (simp add: actions_bar_def action_shown_def action_button_def click_handler_def
      failing_action_def log_close_def)

text \<open>
  Claim C5, as amended: when there are actions, the action bar holds one button for each
  action whose condition is absent or holds of the record, in the order of the list, and
  no other (with no action there is no bar); the click handler of the button of an action
  runs the action's callback on the record and then, when the callback returns, the close
  callback on the state the callback leaves, whatever that state is; when the callback
  raises, the exception leaves the handler and the close callback does not run.
\<close>

theorem actions_bar_shows_enabled_actions:
  "actions_bar item onClose actions =
     (if actions = [] then BoolN False
      else El ''div'' [(''className'', PStr ''flex flex-wrap gap-2 pt-4 border-t justify-end'')]
             (map (\<lambda>a. El ''Button''
                          [(''key'', PStr (act_key a)),
                           (''variant'',
                              PStr (case act_variant a of
                                      None \<Rightarrow> ''outline''
                                    | Some v \<Rightarrow> if v \<noteq> [] then v else ''outline'')),
                           (''size'', PStr ''sm''),
                           (''className'',
                              PStr ''flex items-center gap-2 border border-primary/50 rounded-md''),
                           (''onClick'', PHandler (click_handler item onClose a))]
                          [act_icon a, Txt (act_label a)])
                (filter (\<lambda>a. act_condition a = None \<or> (\<exists>c. act_condition a = Some c \<and> c item))
                   actions))) \<and>
   click (action_button item onClose a) w = Some (click_handler item onClose a w) \<and>
   (act_onClick a item w = Returned w' \<longrightarrow> click_handler item onClose a w = onClose w') \<and>
   (act_onClick a item w = Raised e w' \<longrightarrow> click_handler item onClose a w = Raised e w')"
proof -
  have eq: "action_shown item =
      (\<lambda>a. act_condition a = None \<or> (\<exists>c. act_condition a = Some c \<and> c item))"
    by (rule ext) (auto simp: action_shown_def split: option.splits)
  have button: "action_button item onClose =
      (\<lambda>a. El ''Button''
              [(''key'', PStr (act_key a)),
               (''variant'',
                  PStr (case act_variant a of
                          None \<Rightarrow> ''outline''
                        | Some v \<Rightarrow> if v \<noteq> [] then v else ''outline'')),
               (''size'', PStr ''sm''),
               (''className'',
                  PStr ''flex items-center gap-2 border border-primary/50 rounded-md''),
               (''onClick'', PHandler (click_handler item onClose a))]
              [act_icon a, Txt (act_label a)])"
    by (rule ext) (simp add: action_button_def)
  have bar: "actions_bar item onClose actions =
     (if actions = [] then BoolN False
      else El ''div'' [(''className'', PStr ''flex flex-wrap gap-2 pt-4 border-t justify-end'')]
             (map (action_button item onClose)
                (filter (\<lambda>a. act_condition a = None \<or> (\<exists>c. act_condition a = Some c \<and> c item))
                   actions)))"
    unfolding actions_bar_def eq by simp
  have fire: "click (action_button item onClose a) w = Some (click_handler item onClose a w)"
    by (simp add: action_button_def)
  show ?thesis
    unfolding bar fire unfolding button by (simp add: click_handler_def)
qed

text \<open>
  The amended claim on a record that is not active, with an unconditional action, one
  shown for active records only and one whose callback raises: two buttons; the click on
  the first logs the action and then the close, the click on the other logs the action
  and raises.
\<close>

theorem actions_bar_shows_enabled_actions_witness:
  "actions_bar (plain_record [(''status'', JStr ''inactive'')]) log_close
     [log_action ''edit'' None, log_action ''archive'' (Some is_active), failing_action ''save''] =
     El ''div'' [(''className'', PStr ''flex flex-wrap gap-2 pt-4 border-t justify-end'')]
       [El ''Button''
          [(''key'', PStr ''edit''), (''variant'', PStr ''outline''), (''size'', PStr ''sm''),
           (''className'', PStr ''flex items-center gap-2 border border-primary/50 rounded-md''),
           (''onClick'',
              PHandler (click_handler (plain_record [(''status'', JStr ''inactive'')]) log_close
                          (log_action ''edit'' None)))]
          [NullN, Txt ''edit''],
        El ''Button''
          [(''key'', PStr ''save''), (''variant'', PStr ''outline''), (''size'', PStr ''sm''),
           (''className'', PStr ''flex items-center gap-2 border border-primary/50 rounded-md''),
           (''onClick'',
              PHandler (click_handler (plain_record [(''status'', JStr ''inactive'')]) log_close
                          (failing_action ''save'')))]
          [NullN, Txt ''save'']] \<and>
   click_handler (plain_record [(''status'', JStr ''inactive'')]) log_close
     (log_action ''edit'' None) [] = Returned [''edit'', ''close''] \<and>
   click_handler (plain_record [(''status'', JStr ''inactive'')]) log_close
     (failing_action ''save'') [] = Raised (Thrown ''save'') [''save'']"
  using
    actions_bar_shows_enabled_actions [where item = "plain_record [(''status'', JStr ''inactive'')]"
      and onClose = log_close
      and actions = "[log_action ''edit'' None, log_action ''archive'' (Some is_active),
                      failing_action ''save'']"
      and a = "log_action ''edit'' None" and w = "[]" and w' = "[''edit'']"]
    actions_bar_shows_enabled_actions [where item = "plain_record [(''status'', JStr ''inactive'')]"
      and onClose = log_close
      and actions = "[log_action ''edit'' None, log_action ''archive'' (Some is_active),
                      failing_action ''save'']"
      and a = "failing_action ''save''" and w = "[]" and w' = "[''save'']"
      and e = "Thrown ''save''"]
  by (simp add: log_action_def failing_action_def log_close_def is_active_def item_get_def
      plain_record_def)

subsection \<open>Separators\<close>

lemma renderFieldSection_empty: "renderFieldSection h item t [] = Inr NullN"
  by (simp add: renderFieldSection_def)

lemma renderFieldSection_shows: "fs \<noteq> [] \<Longrightarrow> slot_shows (renderFieldSection h item t fs)"
  by (cases "sequence_err (map (field_row h item) fs)") (simp_all add: renderFieldSection_def)

lemma renderFieldSection_not_separator: "renderFieldSection h item t fs \<noteq> Inr separator"
  by (cases "sequence_err (map (field_row h item) fs)")
    (simp_all add: renderFieldSection_def separator_def)

lemma sequence_err_Inr_map: "sequence_err rs = Inr xs \<Longrightarrow> rs = map Inr xs"
proof (induction rs arbitrary: xs rule: sequence_err.induct)
  case (3 x rs)
  then show ?case by (cases "sequence_err rs") auto
qed auto

lemma shown_children_of_body:
  assumes "body h item columns = Inr n"
  shows "map Inr (filter (\<lambda>c. \<not> renders_nothing c) (children n)) =
         filter slot_shows (body_slots h item columns)"
proof -
  from assms obtain cs where seq: "sequence_err (body_slots h item columns) = Inr cs"
    and n: "n = El ''div'' [cls ''space-y-6 py-4''] cs"
    by (auto simp: body_def bind_err_Inr_iff)
  from seq have "body_slots h item columns = map Inr cs" by (rule sequence_err_Inr_map)
  then show ?thesis
    by (simp add: n filter_map comp_def)
qed

text \<open>
  Claim C7: the child expressions of the body that show are the sections of the non-empty
  buckets, in the order basic, media, other, meta, with one separator between each two
  neighbours and nowhere else, and when the body renders they are the children of its
  node that show; when only the basic and the meta bucket are non-empty, they are the
  basic section, one separator and the meta section, and the body has no other separator.
\<close>

theorem separators_between_shown_sections:
  "filter slot_shows (body_slots h item columns) =
     separated_by (Inr separator)
       (map (\<lambda>(t, fs). renderFieldSection h item t fs)
          (filter (\<lambda>(t, fs). fs \<noteq> [])
             [(''Basic Information'', basicFields columns), (''Media'', mediaFields columns),
              (''Additional Information'', otherFields columns),
              (''Meta Information'', metaFields columns)])) \<and>
   (body h item columns = Inr n \<longrightarrow>
      map Inr (filter (\<lambda>c. \<not> renders_nothing c) (children n)) =
        filter slot_shows (body_slots h item columns)) \<and>
   (basicFields columns \<noteq> [] \<and> mediaFields columns = [] \<and> otherFields columns = [] \<and>
    metaFields columns \<noteq> [] \<longrightarrow>
      filter slot_shows (body_slots h item columns) =
        [renderFieldSection h item ''Basic Information'' (basicFields columns), Inr separator,
         renderFieldSection h item ''Meta Information'' (metaFields columns)] \<and>
      length (filter (\<lambda>slot. slot = Inr separator) (body_slots h item columns)) = 1)"
proof (intro conjI impI)
  show "filter slot_shows (body_slots h item columns) =
     separated_by (Inr separator)
       (map (\<lambda>(t, fs). renderFieldSection h item t fs)
          (filter (\<lambda>(t, fs). fs \<noteq> [])
             [(''Basic Information'', basicFields columns), (''Media'', mediaFields columns),
              (''Additional Information'', otherFields columns),
              (''Meta Information'', metaFields columns)]))"
    by (cases "basicFields columns = []"; cases "mediaFields columns = []";
        cases "otherFields columns = []"; cases "metaFields columns = []")
       (simp_all add: body_slots_def renderFieldSection_empty renderFieldSection_shows
          separator_def)
next
  assume "body h item columns = Inr n"
  then show "map Inr (filter (\<lambda>c. \<not> renders_nothing c) (children n)) =
        filter slot_shows (body_slots h item columns)"
    by (rule shown_children_of_body)
next
  assume only: "basicFields columns \<noteq> [] \<and> mediaFields columns = [] \<and>
    otherFields columns = [] \<and> metaFields columns \<noteq> []"
  then show "filter slot_shows (body_slots h item columns) =
        [renderFieldSection h item ''Basic Information'' (basicFields columns), Inr separator,
         renderFieldSection h item ''Meta Information'' (metaFields columns)]"
    by (simp add: body_slots_def renderFieldSection_empty renderFieldSection_shows
        separator_def)
  from only show "length (filter (\<lambda>slot. slot = Inr separator) (body_slots h item columns)) = 1"
    by (simp add: body_slots_def renderFieldSection_empty renderFieldSection_not_separator)
      (simp add: separator_def)
qed

text \<open>
  The claim on a name and a creation date, a basic and a meta column: the body renders,
  and the children that show are the two sections with the separator between them.
\<close>

theorem separators_between_shown_sections_witness:
  "filter slot_shows
     (body_slots demo_host
        (plain_record [(''name'', JStr ''Ada''), (''createdAt'', JStr ''2024-01-01'')])
        [plain_column ''name'' None, plain_column ''createdAt'' (Some ''date'')]) =
     [renderFieldSection demo_host
        (plain_record [(''name'', JStr ''Ada''), (''createdAt'', JStr ''2024-01-01'')])
        ''Basic Information'' [plain_column ''name'' None],
      Inr (El ''Separator'' [] []),
      renderFieldSection demo_host
        (plain_record [(''name'', JStr ''Ada''), (''createdAt'', JStr ''2024-01-01'')])
        ''Meta Information'' [plain_column ''createdAt'' (Some ''date'')]] \<and>
   length (filter (\<lambda>slot. slot = Inr (El ''Separator'' [] []))
     (body_slots demo_host
        (plain_record [(''name'', JStr ''Ada''), (''createdAt'', JStr ''2024-01-01'')])
        [plain_column ''name'' None, plain_column ''createdAt'' (Some ''date'')])) = 1 \<and>
   (\<exists>n. body demo_host
          (plain_record [(''name'', JStr ''Ada''), (''createdAt'', JStr ''2024-01-01'')])
          [plain_column ''name'' None, plain_column ''createdAt'' (Some ''date'')] = Inr n)"
proof -
  have renders: "\<exists>n. body demo_host
          (plain_record [(''name'', JStr ''Ada''), (''createdAt'', JStr ''2024-01-01'')])
          [plain_column ''name'' None, plain_column ''createdAt'' (Some ''date'')] = Inr n"
    by (simp add: body_def body_slots_def renderFieldSection_def field_row_def
        formatValue_def formatValue_traced_def format_by_type_def format_default_def
        basicFields_def mediaFields_def otherFields_def metaFields_def basic_keys_def
        meta_keys_def plain_column_def item_get_def plain_record_def)
  show ?thesis
    using separators_between_shown_sections [where h = demo_host
        and item = "plain_record [(''name'', JStr ''Ada''), (''createdAt'', JStr ''2024-01-01'')]"
        and columns = "[plain_column ''name'' None, plain_column ''createdAt'' (Some ''date'')]"]
      renders
    by (simp add: basicFields_def mediaFields_def otherFields_def metaFields_def basic_keys_def
        meta_keys_def plain_column_def separator_def)
qed

subsection \<open>Totality\<close>

lemma js_String_safe: "string_safe v \<Longrightarrow> \<exists>s. js_String h v = Inr s"
proof (induction h v rule: js_String.induct)
  case (6 h xs)
  have "\<exists>ss. sequence_err
          (map (\<lambda>x. case x of JNull \<Rightarrow> Inr [] | JUndefined \<Rightarrow> Inr [] | _ \<Rightarrow> js_String h x) xs) =
        Inr ss"
  proof (rule sequence_err_Inr)
    fix r
    assume "r \<in> set (map (\<lambda>x. case x of JNull \<Rightarrow> Inr [] | JUndefined \<Rightarrow> Inr []
                                | _ \<Rightarrow> js_String h x) xs)"
    then obtain x where x: "x \<in> set xs"
      and r: "r = (case x of JNull \<Rightarrow> Inr [] | JUndefined \<Rightarrow> Inr [] | _ \<Rightarrow> js_String h x)"
      by auto
    from x "6.prems" have "string_safe x" by (simp add: list_all_iff)
    with "6.IH" x show "\<exists>s. r = Inr s"
      unfolding r by (cases x) auto
  qed
  then show ?case by auto
qed auto

lemma input_String_safe: "input_safe v \<Longrightarrow> \<exists>s. input_String h v = Inr s"
  by (cases v) (simp_all add: js_String_safe)

lemma sequence_enumerate_safe:
  assumes "\<And>x. x \<in> set xs \<Longrightarrow> \<exists>s. js_String h x = Inr s"
  shows "\<exists>ts. sequence_err
          (map (\<lambda>(index, x). bind_err (js_String h x) (\<lambda>s. Inr (g index s)))
             (enumerate n xs)) = Inr ts"
proof (rule sequence_err_Inr)
  fix r
  assume "r \<in> set (map (\<lambda>(index, x). bind_err (js_String h x) (\<lambda>s. Inr (g index s)))
             (enumerate n xs))"
  then obtain i x where "(i, x) \<in> set (enumerate n xs)"
    and r: "r = bind_err (js_String h x) (\<lambda>s. Inr (g i s))"
    by auto
  then have "x \<in> set xs" by (auto simp: in_set_enumerate_eq)
  then obtain s where "js_String h x = Inr s" using assms by blast
  then show "\<exists>n. r = Inr n" by (simp add: r)
qed

lemma entry_row_safe:
  assumes "string_safe (snd kv)"
  shows "\<exists>n. entry_row h kv = Inr n"
proof -
  obtain s where "js_String h (snd kv) = Inr s"
    using assms js_String_safe by blast
  then show ?thesis
    by (cases "snd kv") (simp_all add: entry_row_def entry_value_def)
qed

lemma format_entries_safe:
  assumes "list_all (\<lambda>kv. string_safe (snd kv)) kvs"
  shows "\<exists>n :: ('n, 'w) node. format_entries h kvs = Inr n"
proof -
  have "\<exists>rows :: ('n, 'w) node list.
          sequence_err (map (entry_row h) (filter (\<lambda>kv. truthy h (snd kv)) kvs)) = Inr rows"
  proof (rule sequence_err_Inr)
    fix r :: "err + ('n, 'w) node"
    assume "r \<in> set (map (entry_row h) (filter (\<lambda>kv. truthy h (snd kv)) kvs))"
    then obtain kv where "kv \<in> set kvs" and r: "r = entry_row h kv" by auto
    with assms have "string_safe (snd kv)" by (simp add: list_all_iff)
    then show "\<exists>n. r = Inr n" unfolding r by (rule entry_row_safe)
  qed
  then obtain rows :: "('n, 'w) node list" where
    "sequence_err (map (entry_row h) (filter (\<lambda>kv. truthy h (snd kv)) kvs)) = Inr rows"
    by blast
  then show ?thesis
    by (simp add: format_entries_def Let_def)
qed

lemma format_image_safe:
  assumes "input_safe v"
  shows "\<exists>n :: ('n, 'w) node. format_image h v = Inr n"
proof (cases v)
  case (Data d)
  show ?thesis
  proof (cases d)
    case (JArr xs)
    have "\<exists>s. js_String h x = Inr s" if "x \<in> set xs" for x
      using that assms Data JArr by (simp add: list_all_iff js_String_safe)
    then obtain ts :: "('n, 'w) node list" where
      "sequence_err
         (map (\<lambda>(index, x). bind_err (js_String h x) (\<lambda>s. Inr (thumbnail index s)))
            (enumerate 0 xs)) = Inr ts"
      using sequence_enumerate_safe [of xs h thumbnail 0] by blast
    then show ?thesis
      using Data JArr by (simp add: format_image_def)
  qed (simp_all add: Data format_image_def)
qed (simp_all add: format_image_def)

lemma format_default_safe:
  assumes "input_safe v"
  shows "\<exists>n :: ('n, 'w) node. format_default h v = Inr n"
proof (cases v)
  case (Data d)
  show ?thesis
  proof (cases d)
    case (JArr xs)
    have "\<exists>s. js_String h x = Inr s" if "x \<in> set xs" for x
      using that assms Data JArr by (simp add: list_all_iff js_String_safe)
    then obtain ts :: "('n, 'w) node list" where
      "sequence_err
         (map (\<lambda>(index, x). bind_err (js_String h x) (\<lambda>s. Inr (tag_badge index s)))
            (enumerate 0 xs)) = Inr ts"
      using sequence_enumerate_safe [of xs h tag_badge 0] by blast
    then show ?thesis
      using Data JArr by (simp add: format_default_def)
  next
    case (JObj p kvs)
    with assms Data have "list_all (\<lambda>kv. string_safe (snd kv)) kvs" by simp
    from format_entries_safe [OF this] show ?thesis
      using Data JObj by (simp add: format_default_def)
  qed (simp_all add: Data format_default_def)
next
  case PrototypeObject
  then show ?thesis by (simp add: format_default_def format_entries_def)
qed (simp_all add: format_default_def)

lemma format_by_type_safe:
  fixes col :: "('n, 'w) column"
  assumes "input_safe v"
  shows "\<exists>n. format_by_type h v col = Inr n"
proof -
  obtain s where "input_String h v = Inr s" using assms input_String_safe by blast
  moreover have "\<exists>n :: ('n, 'w) node. format_image h v = Inr n"
    using assms by (rule format_image_safe)
  moreover have "\<exists>n :: ('n, 'w) node. format_default h v = Inr n"
    using assms by (rule format_default_safe)
  ultimately show ?thesis
    by (simp add: format_by_type_def)
qed

lemma item_get_safe:
  assumes "list_all (\<lambda>kv. string_safe (snd kv)) (snd item)"
  shows "input_safe (item_get item k)"
proof (cases "map_of (snd item) k")
  case None
  then show ?thesis by (simp add: item_get_def)
next
  case (Some v)
  then have "(k, v) \<in> set (snd item)" by (rule map_of_SomeD)
  with assms have "string_safe v" by (auto simp: list_all_iff)
  with Some show ?thesis by (simp add: item_get_def)
qed

lemma formatValue_safe:
  fixes col :: "('n, 'w) column"
  assumes "input_safe v" and "col_render col = None"
  shows "\<exists>n. formatValue h item v (Some col) = Inr n"
proof (cases "v = Data JNull \<or> v = Data JUndefined")
  case True
  then show ?thesis by (auto simp: formatValue_def formatValue_traced_def)
next
  case False
  then show ?thesis
    using assms format_by_type_safe [of v h col] by (simp add: formatValue_builtin)
qed

text \<open>
  Claim C8 says that the formatter never raises, whatever the shape of the value. The
  string conversion of a mapping raises a \<^verbatim>\<open>TypeError\<close> when the mapping has an own property
  \<^verbatim>\<open>toString\<close> or no prototype: so does the formatter on such a mapping in a \<^verbatim>\<open>url\<close> column,
  and on a mapping that holds one in an untyped column.
\<close>

theorem formatValue_raises_counterexample:
  "formatValue demo_host (plain_record []) (Data (JObj ObjectPrototype [(''toString'', JStr ''x'')]))
     (Some (plain_column ''link'' (Some ''url''))) = Inl TypeError \<and>
   formatValue demo_host (plain_record [])
     (Data (JObj ObjectPrototype [(''site'', JObj ObjectPrototype [(''toString'', JStr ''x'')])]))
     (Some (plain_column ''links'' None)) = Inl TypeError \<and>
   formatValue demo_host (plain_record []) (Data (JObj NoPrototype []))
     (Some (plain_column ''link'' (Some ''url''))) = Inl TypeError"
  by (simp add: formatValue_def formatValue_traced_def format_by_type_def plain_column_def
      format_default_def format_entries_def entry_row_def entry_value_def)

text \<open>
  Claim C8, as amended: for every value made of \<^verbatim>\<open>null\<close>, \<^verbatim>\<open>undefined\<close>, strings, numbers,
  booleans, arrays and mappings in which every mapping, at any depth, has
  \<^verbatim>\<open>Object.prototype\<close> as its prototype and no own property named \<^verbatim>\<open>toString\<close>, for the
  members a record inherits from \<^verbatim>\<open>Object.prototype\<close>, and for every column without custom
  render, the formatter returns a node and does not raise; so it does on whatever a key
  reads from a record whose own values are of that kind. A string in a \<^verbatim>\<open>date\<close> column is
  shown as the locale text of its date, and as the text \<^verbatim>\<open>Invalid Date\<close> when it does not
  parse; a string in a \<^verbatim>\<open>url\<close> column is shown as a link whose target and text are the
  string as it is.
\<close>

theorem formatValue_total_on_safe_values:
  fixes col :: "('n, 'w) column"
  assumes "col_render col = None"
  shows "(input_safe v \<longrightarrow> (\<exists>n. formatValue h item v (Some col) = Inr n)) \<and>
         (list_all (\<lambda>kv. string_safe (snd kv)) (snd item) \<longrightarrow>
            (\<exists>n. formatValue h item (item_get item k) (Some col) = Inr n)) \<and>
         (col_type col = Some ''date'' \<longrightarrow>
            formatValue h item (Data (JStr s)) (Some col) =
              Inr (El ''div'' [(''className'', PStr ''flex items-center gap-2'')]
                     [El ''Calendar'' [(''className'', PStr ''h-4 w-4 text-muted-foreground'')] [],
                      El ''span'' []
                        [Txt (case date_parse h s of
                                None \<Rightarrow> ''Invalid Date''
                              | Some t \<Rightarrow> date_to_locale h t)]])) \<and>
         (col_type col = Some ''url'' \<longrightarrow>
            formatValue h item (Data (JStr s)) (Some col) =
              Inr (El ''a''
                     [(''href'', PStr s), (''target'', PStr ''_blank''),
                      (''rel'', PStr ''noopener noreferrer''),
                      (''className'',
                         PStr ''inline-flex items-center gap-1 text-primary hover:underline'')]
                     [Txt s, El ''ExternalLink'' [(''className'', PStr ''h-3 w-3'')] []]))"
proof (intro conjI impI)
  assume "input_safe v"
  then show "\<exists>n. formatValue h item v (Some col) = Inr n"
    using assms by (rule formatValue_safe)
next
  assume "list_all (\<lambda>kv. string_safe (snd kv)) (snd item)"
  then have "input_safe (item_get item k)" by (rule item_get_safe)
  then show "\<exists>n. formatValue h item (item_get item k) (Some col) = Inr n"
    using assms by (rule formatValue_safe)
next
  assume "col_type col = Some ''date''"
  then show "formatValue h item (Data (JStr s)) (Some col) =
      Inr (El ''div'' [(''className'', PStr ''flex items-center gap-2'')]
             [El ''Calendar'' [(''className'', PStr ''h-4 w-4 text-muted-foreground'')] [],
              El ''span'' []
                [Txt (case date_parse h s of
                        None \<Rightarrow> ''Invalid Date''
                      | Some t \<Rightarrow> date_to_locale h t)]])"
    using assms
    by (simp add: formatValue_builtin format_by_type_def format_date_def toLocaleDateString_def)
next
  assume "col_type col = Some ''url''"
  then show "formatValue h item (Data (JStr s)) (Some col) =
      Inr (El ''a''
             [(''href'', PStr s), (''target'', PStr ''_blank''),
              (''rel'', PStr ''noopener noreferrer''),
              (''className'',
                 PStr ''inline-flex items-center gap-1 text-primary hover:underline'')]
             [Txt s, El ''ExternalLink'' [(''className'', PStr ''h-3 w-3'')] []])"
    using assms by (simp add: formatValue_builtin format_by_type_def format_url_def)
qed

text \<open>
  The amended claim on a mapping of links in an untyped column, on the inherited member
  \<^verbatim>\<open>constructor\<close> of a record, on a string that is no date in a date column and on a string
  that is no URL in a \<^verbatim>\<open>url\<close> column.
\<close>

theorem formatValue_total_on_safe_values_witness:
  "(\<exists>n. formatValue demo_host (plain_record [])
          (Data (JObj ObjectPrototype
                   [(''site'', JStr ''http://x''), (''tags'', JArr [JNum 1, JNull, JBool True])]))
          (Some (plain_column ''links'' None)) = Inr n) \<and>
   (\<exists>n. formatValue demo_host (plain_record [(''name'', JStr ''Ada'')])
          (item_get (plain_record [(''name'', JStr ''Ada'')]) ''constructor'')
          (Some (plain_column ''constructor'' None)) = Inr n) \<and>
   item_get (plain_record [(''name'', JStr ''Ada'')]) ''constructor'' =
     BuiltinFunction ''constructor'' \<and>
   formatValue demo_host (plain_record []) (Data (JStr ''not a date''))
     (Some (plain_column ''createdAt'' (Some ''date''))) =
     Inr (El ''div'' [(''className'', PStr ''flex items-center gap-2'')]
            [El ''Calendar'' [(''className'', PStr ''h-4 w-4 text-muted-foreground'')] [],
             El ''span'' [] [Txt ''Invalid Date'']]) \<and>
   formatValue demo_host (plain_record []) (Data (JStr ''not a url''))
     (Some (plain_column ''site'' (Some ''url''))) =
     Inr (El ''a''
            [(''href'', PStr ''not a url''), (''target'', PStr ''_blank''),
             (''rel'', PStr ''noopener noreferrer''),
             (''className'',
                PStr ''inline-flex items-center gap-1 text-primary hover:underline'')]
            [Txt ''not a url'', El ''ExternalLink'' [(''className'', PStr ''h-3 w-3'')] []])"
proof (intro conjI)
  show "\<exists>n. formatValue demo_host (plain_record [])
          (Data (JObj ObjectPrototype
                   [(''site'', JStr ''http://x''), (''tags'', JArr [JNum 1, JNull, JBool True])]))
          (Some (plain_column ''links'' None)) = Inr n"
    using formatValue_total_on_safe_values [where h = demo_host and item = "plain_record []"
        and v = "Data (JObj ObjectPrototype
                   [(''site'', JStr ''http://x''), (''tags'', JArr [JNum 1, JNull, JBool True])])"
        and col = "plain_column ''links'' None"]
    by (simp add: plain_column_def)
  show "\<exists>n. formatValue demo_host (plain_record [(''name'', JStr ''Ada'')])
          (item_get (plain_record [(''name'', JStr ''Ada'')]) ''constructor'')
          (Some (plain_column ''constructor'' None)) = Inr n"
    using formatValue_total_on_safe_values [where h = demo_host
        and item = "plain_record [(''name'', JStr ''Ada'')]" and k = "''constructor''"
        and col = "plain_column ''constructor'' None"]
    by (simp add: plain_column_def plain_record_def)
  show "item_get (plain_record [(''name'', JStr ''Ada'')]) ''constructor'' =
     BuiltinFunction ''constructor''"
    by (simp add: item_get_def plain_record_def object_prototype_functions_def)
  show "formatValue demo_host (plain_record []) (Data (JStr ''not a date''))
     (Some (plain_column ''createdAt'' (Some ''date''))) =
     Inr (El ''div'' [(''className'', PStr ''flex items-center gap-2'')]
            [El ''Calendar'' [(''className'', PStr ''h-4 w-4 text-muted-foreground'')] [],
             El ''span'' [] [Txt ''Invalid Date'']])"
    using formatValue_total_on_safe_values [where h = demo_host and item = "plain_record []"
        and s = "''not a date''" and col = "plain_column ''createdAt'' (Some ''date'')"]
    by (simp add: plain_column_def demo_host_def)
  show "formatValue demo_host (plain_record []) (Data (JStr ''not a url''))
     (Some (plain_column ''site'' (Some ''url''))) =
     Inr (El ''a''
            [(''href'', PStr ''not a url''), (''target'', PStr ''_blank''),
             (''rel'', PStr ''noopener noreferrer''),
             (''className'',
                PStr ''inline-flex items-center gap-1 text-primary hover:underline'')]
            [Txt ''not a url'', El ''ExternalLink'' [(''className'', PStr ''h-3 w-3'')] []])"
    using formatValue_total_on_safe_values [where h = demo_host and item = "plain_record []"
        and s = "''not a url''" and col = "plain_column ''site'' (Some ''url'')"]
    by (simp add: plain_column_def)
qed

subsection \<open>Title\<close>

lemma format_select_element: "is_element (format_select h opts s)"
  by (simp add: format_select_def option_badge_def outline_badge_def split: option.splits)

lemma format_image_element: "format_image h v = Inr n \<Longrightarrow> is_element n"
  by (auto simp: format_image_def bind_err_Inr_iff single_image_def no_image_def sentinel_def
      image_grid_def split: input.splits jsval.splits if_splits)

lemma format_entries_element: "format_entries h kvs = Inr n \<Longrightarrow> is_element n"
  by (auto simp: format_entries_def bind_err_Inr_iff sentinel_def Let_def split: if_splits)

lemma format_default_element: "format_default h v = Inr n \<Longrightarrow> is_element n"
  by (auto simp: format_default_def bind_err_Inr_iff sentinel_def
      dest: format_entries_element split: input.splits jsval.splits if_splits)

lemma format_by_type_element: "format_by_type h v col = Inr n \<Longrightarrow> is_element n"
  using format_select_element format_image_element format_default_element
  by (auto simp: format_by_type_def bind_err_Inr_iff format_date_def format_url_def
      format_textarea_def split: if_splits)

lemma format_by_type_truthy: "format_by_type h v col = Inr n \<Longrightarrow> node_truthy h n"
  by (drule format_by_type_element) (cases n, simp_all)

text \<open>
  Claim C6 says that a title argument is used whenever it is present and that ``Details''
  is what remains when there is nothing to format. An empty title is passed over for the
  formatted first column; and with no title, the title of a dialog without columns, or of
  a record without the first column's key, is the ``Not provided'' placeholder.
\<close>

theorem title_fallback_counterexample:
  "title_content demo_host (plain_record [(''name'', JStr ''Ada'')]) [plain_column ''name'' None]
     (Some []) \<noteq> Inr (Txt []) \<and>
   title_content demo_host (plain_record []) ([] :: (nat, string list) column list) None =
     Inr (El ''span'' [(''className'', PStr ''text-muted-foreground italic'')]
            [Txt ''Not provided'']) \<and>
   title_content demo_host (plain_record []) [plain_column ''name'' None] None =
     Inr (El ''span'' [(''className'', PStr ''text-muted-foreground italic'')]
            [Txt ''Not provided'']) \<and>
   (Inr (El ''span'' [(''className'', PStr ''text-muted-foreground italic'')]
           [Txt ''Not provided'']) :: err + (nat, string list) node) \<noteq>
     Inr (Txt ''Details'')"
  by (simp add: title_content_def formatValue_def formatValue_traced_def format_by_type_def
      format_default_def plain_column_def item_get_def plain_record_def
      object_prototype_functions_def not_provided_def sentinel_def)

text \<open>
  Claim C6, as amended: a non-empty title argument is the title. With no title argument or
  an empty one, a first column and a value under its key that is neither \<^verbatim>\<open>null\<close> nor
  \<^verbatim>\<open>undefined\<close>, the title is that value formatted by the first column (by its custom render
  or by its type) when the formatted node is truthy, and the text ``Details'' when it is
  falsy; without custom render the formatted node is always the title.
\<close>

theorem title_fallback:
  "(title = Some t \<and> t \<noteq> [] \<longrightarrow> title_content h item columns title = Inr (Txt t)) \<and>
   ((title = None \<or> title = Some []) \<and> columns = c # cs \<and> v = item_get item (col_key c) \<and>
    v \<noteq> Data JNull \<and> v \<noteq> Data JUndefined \<longrightarrow>
      title_content h item columns title =
        bind_err (formatValue h item v (Some c))
          (\<lambda>n. Inr (if node_truthy h n then n else Txt ''Details'')) \<and>
      (col_render c = None \<longrightarrow>
         title_content h item columns title = formatValue h item v (Some c)))"
proof -
  have "bind_err (format_by_type h v c)
          (\<lambda>n. Inr (if node_truthy h n then n else Txt ''Details'')) =
        format_by_type h v c"
    using format_by_type_truthy [of h v c] by (cases "format_by_type h v c") auto
  then show ?thesis
    by (auto simp: title_content_def Let_def formatValue_builtin)
qed

text \<open>
  The amended claim on an explicit title, on a record with a name and no title, and on a
  custom render that returns \<^verbatim>\<open>null\<close>.
\<close>

theorem title_fallback_witness:
  "title_content demo_host (plain_record [(''name'', JStr ''Ada'')]) [plain_column ''name'' None]
     (Some ''Profile'') = Inr (Txt ''Profile'') \<and>
   title_content demo_host (plain_record [(''name'', JStr ''Ada'')]) [plain_column ''name'' None]
     None =
     formatValue demo_host (plain_record [(''name'', JStr ''Ada'')]) (Data (JStr ''Ada''))
       (Some (plain_column ''name'' None)) \<and>
   formatValue demo_host (plain_record [(''name'', JStr ''Ada'')]) (Data (JStr ''Ada''))
     (Some (plain_column ''name'' None)) = Inr (El ''span'' [] [Txt ''Ada'']) \<and>
   title_content demo_host (plain_record [(''bio'', JStr ''x'')]) [custom_column None NullN] None =
     Inr (Txt ''Details'')"
proof (intro conjI)
  show "title_content demo_host (plain_record [(''name'', JStr ''Ada'')])
          [plain_column ''name'' None] (Some ''Profile'') = Inr (Txt ''Profile'')"
    using title_fallback [where title = "Some ''Profile''" and t = "''Profile''"
        and h = demo_host and item = "plain_record [(''name'', JStr ''Ada'')]"
        and columns = "[plain_column ''name'' None]"]
    by simp
  show "title_content demo_host (plain_record [(''name'', JStr ''Ada'')])
          [plain_column ''name'' None] None =
          formatValue demo_host (plain_record [(''name'', JStr ''Ada'')]) (Data (JStr ''Ada''))
            (Some (plain_column ''name'' None))"
    using title_fallback [where title = None and h = demo_host
        and item = "plain_record [(''name'', JStr ''Ada'')]"
        and columns = "[plain_column ''name'' None]"
        and c = "plain_column ''name'' None" and cs = "[]" and v = "Data (JStr ''Ada'')"]
    by (auto simp: plain_column_def item_get_def plain_record_def)
  show "formatValue demo_host (plain_record [(''name'', JStr ''Ada'')]) (Data (JStr ''Ada''))
     (Some (plain_column ''name'' None)) = Inr (El ''span'' [] [Txt ''Ada''])"
    by (simp add: formatValue_def formatValue_traced_def format_by_type_def format_default_def
        plain_column_def)
  show "title_content demo_host (plain_record [(''bio'', JStr ''x'')])
          [custom_column None NullN] None = Inr (Txt ''Details'')"
    using title_fallback [where title = None and h = demo_host
        and item = "plain_record [(''bio'', JStr ''x'')]"
        and columns = "[custom_column None NullN]"
        and c = "custom_column None NullN" and cs = "[]" and v = "Data (JStr ''x'')"]
    by (simp add: custom_column_def item_get_def plain_record_def formatValue_def
        formatValue_traced_def)
qed

end
